theory Spec2Isabelle
  imports Complex_Main "HOL-Library.Word"
begin

section \<open>Go values used by the client\<close>

text \<open>
  The client in \<^verbatim>\<open>hcloud/client.go\<close> is modelled for a 64-bit platform: Go's
  \<^verbatim>\<open>int\<close> and \<^verbatim>\<open>int64\<close> are 64-bit words, read as signed numbers with \<open>sint\<close>;
  \<^verbatim>\<open>time.Duration\<close> is an \<^verbatim>\<open>int64\<close> count of nanoseconds. Go strings and byte slices
  are byte sequences, here \<open>string\<close>.
\<close>

type_synonym go_int = "64 word"
type_synonym int64 = "64 word"
type_synonym Duration = "64 word"

definition Millisecond :: Duration where
  "Millisecond = 1000000"

subsection \<open>Errors\<close>

type_synonym ErrorCode = string

definition ErrorCodeServiceError :: ErrorCode where
  "ErrorCodeServiceError = ''service_error''"

definition ErrorCodeLimitReached :: ErrorCode where
  "ErrorCodeLimitReached = ''limit_reached''"

definition ErrorCodeUnknownError :: ErrorCode where
  "ErrorCodeUnknownError = ''unknown_error''"

text \<open>
  The errors of \<^verbatim>\<open>encoding/json\<close>: a syntax error of the scanner, or a value of the
  wrong JSON type for the Go field it is decoded into.
\<close>

datatype json_error = SyntaxError | UnmarshalTypeError

text \<open>
  A Go \<^verbatim>\<open>error\<close> is an interface value. The dynamic types that occur in the client are
  told apart by constructor: \<open>Error\<close> is the struct \<^verbatim>\<open>Error{Code, Message}\<close> of the package
  (the only one the type assertion \<^verbatim>\<open>err.(Error)\<close> accepts); \<open>MetaDataError e\<close> is the value of
  \<^verbatim>\<open>fmt.Errorf("hcloud: error reading response meta data: %s", e)\<close>; \<open>StatusCodeError n\<close>
  is the value of \<^verbatim>\<open>fmt.Errorf("hcloud: server responded with status code %d", n)\<close>;
  \<open>JSONError\<close> is an error returned by \<^verbatim>\<open>json.Unmarshal\<close>; \<open>OtherError\<close> is any other error
  (transport, I/O, a caller's own).
\<close>

datatype go_error =
    Error ErrorCode string
  | MetaDataError go_error
  | StatusCodeError go_int
  | JSONError json_error
  | OtherError string

section \<open>Backoff\<close>

type_synonym BackoffFunc = "go_int \<Rightarrow> Duration"

definition ConstantBackoff :: "Duration \<Rightarrow> BackoffFunc" where
  "ConstantBackoff d = (\<lambda>_. d)"

text \<open>
  \<^verbatim>\<open>ExponentialBackoff\<close> computes \<^verbatim>\<open>time.Duration(math.Pow(b, float64(retries))) * d\<close>.

  A finite \<^verbatim>\<open>float64\<close> is modelled by the rational number it denotes and \<^verbatim>\<open>math.Pow\<close> with
  an integral exponent by exact exponentiation: the rounding of \<^verbatim>\<open>float64\<close> is not
  modelled (it plays no part where base, exponent and power are exactly representable,
  as for base \<open>3/2\<close> and exponent \<open>1\<close>, where \<^verbatim>\<open>math.Pow(x, 1)\<close> is \<^verbatim>\<open>x\<close>). \<open>None\<close> stands for
  a result that is not finite (zero to a negative power).

  The conversion \<^verbatim>\<open>time.Duration(f)\<close> of a float discards the fraction (truncation towards
  zero). Where the truncated value does not fit \<^verbatim>\<open>int64\<close>, or \<open>f\<close> is not finite, the Go
  specification leaves the result to the implementation: the model takes it from the
  parameter \<open>impl\<close>. The multiplication by \<open>d\<close> is \<^verbatim>\<open>int64\<close> multiplication and wraps.
\<close>

definition math_Pow :: "rat \<Rightarrow> int \<Rightarrow> rat option" where
  "math_Pow x y =
     (if 0 \<le> y then Some (x ^ nat y)
      else if x = 0 then None
      else Some (1 / x ^ nat (- y)))"

definition trunc :: "rat \<Rightarrow> int" where
  "trunc x = (if x < 0 then - \<lfloor>- x\<rfloor> else \<lfloor>x\<rfloor>)"

definition float64_to_int64 :: "(rat option \<Rightarrow> int64) \<Rightarrow> rat option \<Rightarrow> int64" where
  "float64_to_int64 impl f =
     (case f of
        None \<Rightarrow> impl f
      | Some x \<Rightarrow>
          if - (2 ^ 63) \<le> trunc x \<and> trunc x < 2 ^ 63 then word_of_int (trunc x)
          else impl f)"

definition ExponentialBackoff :: "(rat option \<Rightarrow> int64) \<Rightarrow> rat \<Rightarrow> Duration \<Rightarrow> BackoffFunc" where
  "ExponentialBackoff impl b d =
     (\<lambda>retries. float64_to_int64 impl (math_Pow b (sint retries)) * d)"

section \<open>Library functions the client calls\<close>

subsection \<open>\<^verbatim>\<open>strings\<close>\<close>

definition HasPrefix :: "string \<Rightarrow> string \<Rightarrow> bool" where
  "HasPrefix s pre = (take (length pre) s = pre)"

text \<open>
  \<^verbatim>\<open>strings.TrimRight(s, cutset)\<close> removes every trailing character that occurs in the
  cutset. The client's cutset is the single ASCII character \<^verbatim>\<open>/\<close>, for which Go trims
  byte by byte.
\<close>

definition TrimRight :: "string \<Rightarrow> string \<Rightarrow> string" where
  "TrimRight s cutset = rev (dropWhile (\<lambda>c. c \<in> set cutset) (rev s))"

subsection \<open>\<^verbatim>\<open>strconv\<close>\<close>

text \<open>
  \<^verbatim>\<open>strconv.ParseInt(s, 10, 64)\<close>, and \<^verbatim>\<open>strconv.Atoi\<close>, which on a 64-bit platform is the
  same function. An optional sign is followed by at least one decimal digit. The digits
  are read from the left: a character that is not a digit gives value 0 and
  \<^verbatim>\<open>ErrSyntax\<close>; as soon as the digits read so far exceed \<^verbatim>\<open>uint64\<close> the scan stops
  with \<^verbatim>\<open>ErrRange\<close>. A magnitude that does not fit \<^verbatim>\<open>int64\<close> gives \<^verbatim>\<open>ErrRange\<close> together
  with the largest value of that sign, not 0.
\<close>

datatype NumError = ErrSyntax | ErrRange

definition is_digit :: "char \<Rightarrow> bool" where
  "is_digit c = (48 \<le> (of_char c :: nat) \<and> (of_char c :: nat) \<le> 57)"

definition digit_val :: "char \<Rightarrow> nat" where
  "digit_val c = of_char c - 48"

fun parse_digits :: "string \<Rightarrow> nat \<Rightarrow> nat \<times> NumError option" where
  "parse_digits [] n = (n, None)"
| "parse_digits (c # cs) n =
     (if \<not> is_digit c then (0, Some ErrSyntax)
      else if 10 * n + digit_val c > 2 ^ 64 - 1 then (2 ^ 64 - 1, Some ErrRange)
      else parse_digits cs (10 * n + digit_val c))"

definition ParseUint :: "string \<Rightarrow> nat \<times> NumError option" where
  "ParseUint s = (if s = [] then (0, Some ErrSyntax) else parse_digits s 0)"

definition ParseInt :: "string \<Rightarrow> int64 \<times> NumError option" where
  "ParseInt s =
     (if s = [] then (0, Some ErrSyntax)
      else
        let neg = (hd s = CHR ''-'');
            ds = (if hd s = CHR ''+'' \<or> hd s = CHR ''-'' then tl s else s)
        in case ParseUint ds of
             (un, Some ErrSyntax) \<Rightarrow> (0, Some ErrSyntax)
           | (un, _) \<Rightarrow>
               if \<not> neg \<and> un \<ge> 2 ^ 63 then (word_of_int (2 ^ 63 - 1), Some ErrRange)
               else if neg \<and> un > 2 ^ 63 then (word_of_int (- (2 ^ 63)), Some ErrRange)
               else (word_of_int (if neg then - int un else int un), None))"

definition Atoi :: "string \<Rightarrow> go_int \<times> NumError option" where
  "Atoi s = ParseInt s"

subsection \<open>\<^verbatim>\<open>encoding/json\<close>\<close>

text \<open>
  A JSON document is a tree. A number keeps the text of its literal, since decoding it
  into an \<^verbatim>\<open>int\<close> field applies \<^verbatim>\<open>strconv.ParseInt\<close> to that text; an object keeps its
  members in the order of the text, duplicates included.

  The scanner of \<^verbatim>\<open>encoding/json\<close>, from bytes to a tree, is not part of this repository:
  it is the parameter \<open>scan\<close> of the functions below, \<open>None\<close> where the bytes are not
  valid JSON.
\<close>

datatype json =
    JNull
  | JBool bool
  | JNumber string
  | JString string
  | JArray "json list"
  | JObject "(string \<times> json) list"

type_synonym scanner = "string \<Rightarrow> json option"

text \<open>
  An object key selects the struct field whose name equals it or, failing that, the first
  field whose name equals it up to case. For the ASCII field names of the client, equality
  up to case is equality after mapping lower-case ASCII letters to upper case, the Kelvin
  sign (UTF-8 \<open>E2 84 AA\<close>) to \<open>K\<close> and the long s (UTF-8 \<open>C5 BF\<close>) to \<open>S\<close>.
\<close>

definition upper_ascii :: "char \<Rightarrow> char" where
  "upper_ascii c =
     (if 97 \<le> (of_char c :: nat) \<and> (of_char c :: nat) \<le> 122
      then char_of ((of_char c :: nat) - 32) else c)"

fun foldName :: "string \<Rightarrow> string" where
  "foldName (a # b # c # cs) =
     (if map of_char [a, b, c] = [226, 132, 170 :: nat] then CHR ''K'' # foldName cs
      else if map of_char [a, b] = [197, 191 :: nat] then CHR ''S'' # foldName (c # cs)
      else upper_ascii a # foldName (b # c # cs))"
| "foldName [a, b] =
     (if map of_char [a, b] = [197, 191 :: nat] then [CHR ''S'']
      else [upper_ascii a, upper_ascii b])"
| "foldName [a] = [upper_ascii a]"
| "foldName [] = []"

definition equalFold :: "string \<Rightarrow> string \<Rightarrow> bool" where
  "equalFold s t = (foldName s = foldName t)"

definition find_field :: "(string \<times> 'f) list \<Rightarrow> string \<Rightarrow> 'f option" where
  "find_field fields key =
     (case find (\<lambda>f. fst f = key) fields of
        Some f \<Rightarrow> Some (snd f)
      | None \<Rightarrow> map_option snd (find (\<lambda>f. equalFold (fst f) key) fields))"

text \<open>
  Decoding a JSON value into a struct. A field decoder takes the member's value and the
  struct so far and returns the struct and whether the value had the right type.
  \<^verbatim>\<open>null\<close> leaves the struct as it is; an object decodes its members in order, skipping
  keys that select no field, and carries on after a value of the wrong type (the first
  such error is what \<^verbatim>\<open>json.Unmarshal\<close> returns in the end); any other JSON value is of
  the wrong type for a struct.
\<close>

type_synonym 'a decoder = "json \<Rightarrow> 'a \<Rightarrow> 'a \<times> bool"

definition decode_member :: "(string \<times> 'a decoder) list \<Rightarrow> 'a \<times> bool \<Rightarrow> string \<times> json \<Rightarrow> 'a \<times> bool" where
  "decode_member fields acc kv =
     (case find_field fields (fst kv) of
        None \<Rightarrow> acc
      | Some dec \<Rightarrow> (fst (dec (snd kv) (fst acc)), snd acc \<and> snd (dec (snd kv) (fst acc))))"

definition decode_struct :: "(string \<times> 'a decoder) list \<Rightarrow> 'a decoder" where
  "decode_struct fields j v =
     (case j of
        JNull \<Rightarrow> (v, True)
      | JObject kvs \<Rightarrow> foldl (decode_member fields) (v, True) kvs
      | _ \<Rightarrow> (v, False))"

definition decode_string :: "(string \<Rightarrow> 'a \<Rightarrow> 'a) \<Rightarrow> 'a decoder" where
  "decode_string set_field j v =
     (case j of
        JNull \<Rightarrow> (v, True)
      | JString s \<Rightarrow> (set_field s v, True)
      | _ \<Rightarrow> (v, False))"

definition decode_int :: "(go_int \<Rightarrow> 'a \<Rightarrow> 'a) \<Rightarrow> 'a decoder" where
  "decode_int set_field j v =
     (case j of
        JNull \<Rightarrow> (v, True)
      | JNumber lit \<Rightarrow>
          (case ParseInt lit of
             (n, None) \<Rightarrow> (set_field n v, True)
           | (n, Some e) \<Rightarrow> (v, False))
      | _ \<Rightarrow> (v, False))"

text \<open>
  \<^verbatim>\<open>json.Unmarshal(body, &v)\<close>: a syntax error when the bytes are not valid JSON (nothing
  is decoded then), otherwise the decoded struct, with an \<^verbatim>\<open>UnmarshalTypeError\<close> when some
  value had the wrong type.
\<close>

definition json_Unmarshal :: "scanner \<Rightarrow> 'a decoder \<Rightarrow> string \<Rightarrow> 'a \<Rightarrow> 'a \<times> go_error option" where
  "json_Unmarshal scan dec body v =
     (case scan body of
        None \<Rightarrow> (v, Some (JSONError SyntaxError))
      | Some j \<Rightarrow>
          (fst (dec j v), if snd (dec j v) then None else Some (JSONError UnmarshalTypeError)))"

subsection \<open>\<^verbatim>\<open>io\<close> and \<^verbatim>\<open>net/http\<close>\<close>

text \<open>
  A response body is a reader. \<open>BytesReader b i\<close> is \<^verbatim>\<open>bytes.NewReader(b)\<close> after \<open>i\<close> bytes
  have been read (wrapped in \<^verbatim>\<open>ioutil.NopCloser\<close>, which changes nothing here);
  \<open>Stream b e\<close> is a body still on the connection, which delivers the bytes \<open>b\<close> and then
  ends, with the error \<open>e\<close> if there is one. \<^verbatim>\<open>ioutil.ReadAll\<close> returns what is left, and
  leaves the reader at its end.
\<close>

datatype reader = BytesReader string nat | Stream string "go_error option"

fun ReadAll :: "reader \<Rightarrow> (string \<times> go_error option) \<times> reader" where
  "ReadAll (BytesReader b i) = ((drop i b, None), BytesReader b (max i (length b)))"
| "ReadAll (Stream b e) = ((b, e), Stream [] e)"

text \<open>
  \<^verbatim>\<open>http.Header\<close> maps a header name to its values; \<^verbatim>\<open>Get\<close> returns the first value, or the
  empty string when there is none. (Go stores and looks up names in canonical form; the
  model uses the names as the client writes them.)
\<close>

type_synonym Header = "string \<Rightarrow> string list option"

definition Header_Get :: "Header \<Rightarrow> string \<Rightarrow> string" where
  "Header_Get h key = (case h key of Some (v # vs) \<Rightarrow> v | _ \<Rightarrow> [])"

section \<open>Responses\<close>

record ResponseMetaPagination =
  Page :: go_int
  PerPage :: go_int
  PreviousPage :: go_int
  NextPage :: go_int
  LastPage :: go_int
  TotalEntries :: go_int

text \<open>\<open>ZeroTime\<close> is the zero \<^verbatim>\<open>time.Time\<close>, \<open>Unix ts\<close> is \<^verbatim>\<open>time.Unix(ts, 0)\<close>.\<close>

datatype Time = ZeroTime | Unix int64

record ResponseMetaRatelimit =
  Limit :: go_int
  Remaining :: go_int
  Reset :: Time

text \<open>The pointer \<^verbatim>\<open>*ResponseMetaPagination\<close> is an option: \<open>None\<close> is \<^verbatim>\<open>nil\<close>.\<close>

record ResponseMeta =
  Pagination :: "ResponseMetaPagination option"
  Ratelimit :: ResponseMetaRatelimit

text \<open>
  \<open>http_Response\<close> has the fields of \<^verbatim>\<open>http.Response\<close> the client uses. \<^verbatim>\<open>Response\<close> embeds
  \<^verbatim>\<open>*http.Response\<close> and adds \<open>Meta\<close>: a record extension, so that an assignment to
  \<^verbatim>\<open>resp.Body\<close> is seen through the \<^verbatim>\<open>Response\<close>, as through the shared pointer in Go.
\<close>

record http_Response =
  StatusCode :: go_int
  Header :: Header
  Body :: reader

record Response = http_Response +
  Meta :: ResponseMeta

definition zero_Pagination :: ResponseMetaPagination where
  "zero_Pagination =
     \<lparr>Page = 0, PerPage = 0, PreviousPage = 0, NextPage = 0, LastPage = 0, TotalEntries = 0\<rparr>"

definition zero_Meta :: ResponseMeta where
  "zero_Meta = \<lparr>Pagination = None, Ratelimit = \<lparr>Limit = 0, Remaining = 0, Reset = ZeroTime\<rparr>\<rparr>"

text \<open>
  \<^verbatim>\<open>ResponseMetaPagination.UnmarshalJSON\<close> decodes into a fresh struct \<open>v\<close> and, when that
  succeeds, copies all six fields; on an error the receiver is left as it was. (In Go
  this error ends the enclosing \<^verbatim>\<open>json.Unmarshal\<close> at once, where the model decodes the
  remaining members; the struct decoded so far is dropped by \<open>readMeta\<close> in either
  case.)
\<close>

definition pagination_fields :: "(string \<times> ResponseMetaPagination decoder) list" where
  "pagination_fields =
     [(''page'', decode_int (\<lambda>n v. v\<lparr>Page := n\<rparr>)),
      (''per_page'', decode_int (\<lambda>n v. v\<lparr>PerPage := n\<rparr>)),
      (''previous_page'', decode_int (\<lambda>n v. v\<lparr>PreviousPage := n\<rparr>)),
      (''next_page'', decode_int (\<lambda>n v. v\<lparr>NextPage := n\<rparr>)),
      (''last_page'', decode_int (\<lambda>n v. v\<lparr>LastPage := n\<rparr>)),
      (''total_entries'', decode_int (\<lambda>n v. v\<lparr>TotalEntries := n\<rparr>))]"

definition UnmarshalJSON :: "ResponseMetaPagination decoder" where
  "UnmarshalJSON data p =
     (case decode_struct pagination_fields data zero_Pagination of
        (v, True) \<Rightarrow> (v, True)
      | (v, False) \<Rightarrow> (p, False))"

text \<open>
  The struct \<open>m\<close> of \<open>readMeta\<close>: a field \<^verbatim>\<open>meta\<close> holding a struct with the one field
  \<^verbatim>\<open>pagination\<close>. It is represented by that innermost field.
\<close>

definition meta_decoder :: "ResponseMetaPagination decoder" where
  "meta_decoder =
     decode_struct [(''meta'', decode_struct [(''pagination'', UnmarshalJSON)])]"

text \<open>
  \<open>selects name key\<close>: the object key \<open>key\<close> selects the struct field called \<open>name\<close>.
  \<open>no_pagination j\<close>: the document \<open>j\<close> is \<^verbatim>\<open>null\<close> or an object in which every member
  that selects \<^verbatim>\<open>meta\<close> is \<^verbatim>\<open>null\<close> or an object with no member that selects
  \<^verbatim>\<open>pagination\<close>.
\<close>

definition selects :: "string \<Rightarrow> string \<Rightarrow> bool" where
  "selects name key = (key = name \<or> equalFold name key)"

definition no_member :: "string \<Rightarrow> json \<Rightarrow> bool" where
  "no_member name j =
     (case j of
        JNull \<Rightarrow> True
      | JObject kvs \<Rightarrow> list_all (\<lambda>kv. \<not> selects name (fst kv)) kvs
      | _ \<Rightarrow> False)"

definition no_pagination :: "json \<Rightarrow> bool" where
  "no_pagination j =
     (case j of
        JNull \<Rightarrow> True
      | JObject kvs \<Rightarrow>
          list_all (\<lambda>kv. if selects ''meta'' (fst kv) then no_member ''pagination'' (snd kv) else True) kvs
      | _ \<Rightarrow> False)"

definition readMeta :: "scanner \<Rightarrow> Response \<Rightarrow> string \<Rightarrow> Response \<times> go_error option" where
  "readMeta scan r body =
     (let h1 = Header_Get (Header r) ''RateLimit-Limit'';
          r1 = (if h1 \<noteq> [] then r\<lparr>Meta := (Meta r)\<lparr>Ratelimit := (Ratelimit (Meta r))\<lparr>Limit := fst (Atoi h1)\<rparr>\<rparr>\<rparr> else r);
          h2 = Header_Get (Header r1) ''RateLimit-Remaining'';
          r2 = (if h2 \<noteq> [] then r1\<lparr>Meta := (Meta r1)\<lparr>Ratelimit := (Ratelimit (Meta r1))\<lparr>Remaining := fst (Atoi h2)\<rparr>\<rparr>\<rparr> else r1);
          h3 = Header_Get (Header r2) ''RateLimit-Reset'';
          r3 = (if h3 \<noteq> [] \<and> snd (ParseInt h3) = None
                then r2\<lparr>Meta := (Meta r2)\<lparr>Ratelimit := (Ratelimit (Meta r2))\<lparr>Reset := Unix (fst (ParseInt h3))\<rparr>\<rparr>\<rparr>
                else r2)
      in if HasPrefix (Header_Get (Header r3) ''Content-Type'') ''application/json''
         then (case json_Unmarshal scan meta_decoder body zero_Pagination of
                 (m, Some err) \<Rightarrow> (r3, Some err)
               | (m, None) \<Rightarrow> (r3\<lparr>Meta := (Meta r3)\<lparr>Pagination := Some m\<rparr>\<rparr>, None))
         else (r3, None))"

text \<open>
  The struct \<open>apiError\<close> of \<open>errorFromResponse\<close>: a field \<^verbatim>\<open>error\<close> holding a struct with
  the string fields \<^verbatim>\<open>code\<close> and \<^verbatim>\<open>message\<close>. It is represented by that inner struct.
\<close>

record apiError =
  Code :: string
  Message :: string

definition apiError_decoder :: "apiError decoder" where
  "apiError_decoder =
     decode_struct
       [(''error'', decode_struct
           [(''code'', decode_string (\<lambda>s v. v\<lparr>Code := s\<rparr>)),
            (''message'', decode_string (\<lambda>s v. v\<lparr>Message := s\<rparr>))])]"

definition errorFromResponse :: "scanner \<Rightarrow> 'a http_Response_scheme \<Rightarrow> string \<Rightarrow> go_error option" where
  "errorFromResponse scan resp body =
     (if \<not> HasPrefix (Header_Get (Header resp) ''Content-Type'') ''application/json''
      then None
      else case json_Unmarshal scan apiError_decoder body \<lparr>Code = [], Message = []\<rparr> of
             (a, Some err) \<Rightarrow> None
           | (a, None) \<Rightarrow>
               if Code a = [] \<and> Message a = [] then None
               else Some (Error (Code a) (Message a)))"

text \<open>
  \<open>ReadBody\<close> reads what is left of the body and puts a fresh reader over the bytes read
  in its place.
\<close>

definition ReadBody :: "Response \<Rightarrow> (string option \<times> go_error option) \<times> Response" where
  "ReadBody r =
     (case ReadAll (Body r) of
        ((body, Some err), rd) \<Rightarrow> ((None, Some err), r\<lparr>Body := rd\<rparr>)
      | ((body, None), rd) \<Rightarrow> ((Some body, None), r\<lparr>Body := BytesReader body 0\<rparr>))"

section \<open>The client\<close>

text \<open>
  A request as \<open>NewRequest\<close> builds it: the method, the URL string handed to
  \<^verbatim>\<open>http.NewRequest\<close>, the headers set, and the body reader if there is one. The context
  is not modelled.
\<close>

record Request =
  Method :: string
  URL :: string
  ReqHeader :: "(string \<times> string) list"
  ReqBody :: "reader option"

text \<open>
  The client's fields. \<open>httpClient\<close> stands for \<^verbatim>\<open>c.httpClient.Do\<close>: the transport's answer
  to a request, an error or an HTTP response. (The resource clients \<^verbatim>\<open>Action\<close>,
  \<^verbatim>\<open>Server\<close>, \<^verbatim>\<open>SSHKey\<close> only hold a pointer back to the client.)
\<close>

record Client =
  endpoint :: string
  token :: string
  backoffFunc :: BackoffFunc
  httpClient :: "Request \<Rightarrow> go_error + http_Response"

type_synonym ClientOption = "Client \<Rightarrow> Client"

definition WithEndpoint :: "string \<Rightarrow> ClientOption" where
  "WithEndpoint e = (\<lambda>client. client\<lparr>endpoint := TrimRight e ''/''\<rparr>)"

definition WithToken :: "string \<Rightarrow> ClientOption" where
  "WithToken t = (\<lambda>client. client\<lparr>token := t\<rparr>)"

definition WithBackoffFunc :: "BackoffFunc \<Rightarrow> ClientOption" where
  "WithBackoffFunc f = (\<lambda>client. client\<lparr>backoffFunc := f\<rparr>)"

text \<open>
  \<open>NewClient\<close> applies the options in order to a client with the default backoff. Its
  first two parameters are what the Go runtime supplies: the float conversion of
  \<open>ExponentialBackoff\<close> and the transport of the default \<^verbatim>\<open>http.Client\<close>.
\<close>

definition NewClient :: "(rat option \<Rightarrow> int64) \<Rightarrow> (Request \<Rightarrow> go_error + http_Response) \<Rightarrow> ClientOption list \<Rightarrow> Client" where
  "NewClient impl transport options =
     foldl (\<lambda>client option. option client)
       \<lparr>endpoint = [], token = [],
        backoffFunc = ExponentialBackoff impl 2 (500 * Millisecond),
        httpClient = transport\<rparr>
       options"

text \<open>
  \<open>NewRequest\<close>. \<^verbatim>\<open>http.NewRequest\<close> rejects some methods and URLs: \<open>check\<close> stands for that
  validation (\<open>Some err\<close> where it fails).
\<close>

definition NewRequest :: "(string \<Rightarrow> string \<Rightarrow> go_error option) \<Rightarrow> Client \<Rightarrow> string \<Rightarrow> string \<Rightarrow> reader option \<Rightarrow> go_error + Request" where
  "NewRequest check c method path body =
     (let url = endpoint c @ path in
      case check method url of
        Some err \<Rightarrow> Inl err
      | None \<Rightarrow>
          Inr \<lparr>Method = method, URL = url,
               ReqHeader =
                 [(''User-Agent'', ''hcloud-go/1.0.0''),
                  (''Authorization'', ''Bearer '' @ token c)]
                 @ (if body \<noteq> None then [(''Content-Type'', ''application/json'')] else []),
               ReqBody = body\<rparr>)"

text \<open>
  The decoding target \<open>v\<close> of \<open>Do\<close>: \<^verbatim>\<open>nil\<close>, an \<^verbatim>\<open>io.Writer\<close> the body is copied to, or a
  value the body is unmarshalled into. Only the error of the copy or of the unmarshalling
  is modelled, as a function of the body.
\<close>

datatype target =
    NoTarget
  | Writer "string \<Rightarrow> go_error option"
  | Value "string \<Rightarrow> go_error option"

text \<open>\<^verbatim>\<open>&Response{Response: resp}\<close>: the HTTP response with the zero \<open>Meta\<close>.\<close>

definition new_Response :: "http_Response \<Rightarrow> Response" where
  "new_Response resp =
     \<lparr>StatusCode = StatusCode resp, Header = Header resp, Body = Body resp,
      Meta = zero_Meta\<rparr>"

definition Do :: "scanner \<Rightarrow> Client \<Rightarrow> Request \<Rightarrow> target \<Rightarrow> Response option \<times> go_error option" where
  "Do scan c r v =
     (case httpClient c r of
        Inl err \<Rightarrow> (None, Some err)
      | Inr resp \<Rightarrow>
          (let response = new_Response resp
           in case ReadAll (Body response) of
                ((body, Some err), rd) \<Rightarrow> (Some (response\<lparr>Body := rd\<rparr>), Some err)
              | ((body, None), rd) \<Rightarrow>
                  (case readMeta scan (response\<lparr>Body := BytesReader body 0\<rparr>) body of
                     (response, Some err) \<Rightarrow> (Some response, Some (MetaDataError err))
                   | (response, None) \<Rightarrow>
                       if 400 \<le> sint (StatusCode response) \<and> sint (StatusCode response) \<le> 599
                       then (case errorFromResponse scan response body of
                               None \<Rightarrow> (Some response, Some (StatusCodeError (StatusCode response)))
                             | Some err \<Rightarrow> (Some response, Some err))
                       else (case v of
                               NoTarget \<Rightarrow> (Some response, None)
                             | Writer w \<Rightarrow> (Some response, w body)
                             | Value u \<Rightarrow> (Some response, u body)))))"

subsection \<open>The pagination driver\<close>

text \<open>
  The page fetcher \<open>f\<close> is a Go closure: it may answer the same page differently from one
  call to the next. It is a function of the page and of a state \<open>'s\<close> it owns, returning
  its two results and the new state. What the driver does to the outside is recorded as
  a trace of events: the calls of \<open>f\<close> and the sleeps of \<open>c.backoff\<close>.
\<close>

datatype event = Fetch go_int | Sleep Duration

type_synonym 's fetcher = "go_int \<Rightarrow> 's \<Rightarrow> (Response option \<times> go_error option) \<times> 's"

text \<open>
  The state of the loop of \<open>all\<close>: \<open>Running retries page\<close> before an iteration,
  \<open>Returned resp err\<close> after a \<^verbatim>\<open>return\<close>, \<open>Panicked\<close> after the nil dereference of
  \<^verbatim>\<open>resp.Meta\<close> on a fetcher that returns neither a response nor an error; each with the
  fetcher's state and the trace so far.
\<close>

datatype 's loop =
    Running go_int go_int 's "event list"
  | Returned "Response option" "go_error option" 's "event list"
  | Panicked 's "event list"

text \<open>One iteration of the \<^verbatim>\<open>for\<close> loop.\<close>

definition all_body :: "Client \<Rightarrow> 's fetcher \<Rightarrow> go_int \<Rightarrow> go_int \<Rightarrow> 's \<Rightarrow> event list \<Rightarrow> 's loop" where
  "all_body c f retries page s tr =
     (case f page s of
        ((resp, Some err), s') \<Rightarrow>
          (case err of
             Error code msg \<Rightarrow>
               if code = ErrorCodeLimitReached
               then Running (retries + 1) page s'
                      (tr @ [Fetch page, Sleep (backoffFunc c retries)])
               else Returned None (Some err) s' (tr @ [Fetch page])
           | _ \<Rightarrow> Returned None (Some err) s' (tr @ [Fetch page]))
      | ((resp, None), s') \<Rightarrow>
          (case resp of
             None \<Rightarrow> Panicked s' (tr @ [Fetch page])
           | Some r \<Rightarrow>
               (case Pagination (Meta r) of
                  None \<Rightarrow> Returned (Some r) None s' (tr @ [Fetch page])
                | Some p \<Rightarrow>
                    if NextPage p = 0 then Returned (Some r) None s' (tr @ [Fetch page])
                    else Running 0 (NextPage p) s' (tr @ [Fetch page]))))"

fun all_step :: "Client \<Rightarrow> 's fetcher \<Rightarrow> 's loop \<Rightarrow> 's loop" where
  "all_step c f (Running retries page s tr) = all_body c f retries page s tr"
| "all_step c f (Returned resp err s tr) = Returned resp err s tr"
| "all_step c f (Panicked s tr) = Panicked s tr"

text \<open>
  The loop may run forever, so it is run with fuel: \<open>all_loop n\<close> is the state after at
  most \<open>n\<close> iterations, and \<open>all c f s n\<close> is \<open>None\<close> when the loop that starts with
  \<open>retries = 0\<close> and \<open>page = 1\<close> has not ended within \<open>n\<close> iterations.
\<close>

primrec all_loop :: "nat \<Rightarrow> Client \<Rightarrow> 's fetcher \<Rightarrow> 's loop \<Rightarrow> 's loop" where
  "all_loop 0 c f st = st"
| "all_loop (Suc n) c f st = all_loop n c f (all_step c f st)"

text \<open>The trace of a loop state.\<close>

fun trace :: "'s loop \<Rightarrow> event list" where
  "trace (Running retries page s tr) = tr"
| "trace (Returned resp err s tr) = tr"
| "trace (Panicked s tr) = tr"

definition all :: "Client \<Rightarrow> 's fetcher \<Rightarrow> 's \<Rightarrow> nat \<Rightarrow> 's loop option" where
  "all c f s n =
     (case all_loop n c f (Running 0 1 s []) of
        Running retries page s' tr \<Rightarrow> None
      | st \<Rightarrow> Some st)"

section \<open>Sample inputs\<close>

text \<open>Concrete clients, responses, bodies and fetchers, at which the properties are evaluated.\<close>

definition offline :: "Request \<Rightarrow> go_error + http_Response" where
  "offline r = Inl (OtherError ''dial tcp: connection refused'')"

definition sample_client :: Client where
  "sample_client =
     \<lparr>endpoint = ''https://host/v1'', token = ''secret'',
      backoffFunc = ConstantBackoff (500 * Millisecond), httpClient = offline\<rparr>"

definition sample_request :: Request where
  "sample_request =
     \<lparr>Method = ''GET'', URL = ''https://host/v1/servers'',
      ReqHeader = [(''User-Agent'', ''hcloud-go/1.0.0''), (''Authorization'', ''Bearer secret'')],
      ReqBody = None\<rparr>"

text \<open>A client whose transport answers every request with the given HTTP response.\<close>

definition serving :: "http_Response \<Rightarrow> Client" where
  "serving resp = sample_client\<lparr>httpClient := (\<lambda>r. Inr resp)\<rparr>"

definition json_response :: "go_int \<Rightarrow> string \<Rightarrow> http_Response" where
  "json_response code body =
     \<lparr>StatusCode = code,
      Header = map_of [(''Content-Type'', [''application/json; charset=utf-8''])],
      Body = Stream body None\<rparr>"

definition html_response :: "go_int \<Rightarrow> string \<Rightarrow> http_Response" where
  "html_response code body =
     \<lparr>StatusCode = code,
      Header = map_of [(''Content-Type'', [''text/html''])],
      Body = Stream body None\<rparr>"

definition ratelimit_response :: "string \<Rightarrow> string \<Rightarrow> string \<Rightarrow> http_Response" where
  "ratelimit_response limit remaining reset =
     \<lparr>StatusCode = 200,
      Header = map_of [(''RateLimit-Limit'', [limit]), (''RateLimit-Remaining'', [remaining]),
                       (''RateLimit-Reset'', [reset])],
      Body = Stream [] None\<rparr>"

definition body_not_found :: string where
  \<open>body_not_found = ''{"error":{"code":"not_found","message":"x"}}''\<close>

definition body_no_error :: string where
  \<open>body_no_error = ''{"servers":[]}''\<close>

definition body_bad_message :: string where
  \<open>body_bad_message = ''{"error":{"code":"x","message":5}}''\<close>

definition body_array :: string where
  \<open>body_array = ''[]''\<close>

definition body_empty_meta :: string where
  \<open>body_empty_meta = ''{"meta":{}}''\<close>

definition body_bad_meta :: string where
  \<open>body_bad_meta = ''{"meta":5}''\<close>

definition body_html :: string where
  \<open>body_html = ''<html>Bad Gateway</html>''\<close>

text \<open>
  The scanner on the sample bodies: the trees of the six JSON texts; \<open>body_html\<close> and
  every other text are taken as invalid.
\<close>

definition sample_scan :: scanner where
  "sample_scan =
     map_of
       [(body_not_found,
           JObject [(''error'', JObject [(''code'', JString ''not_found''),
                                          (''message'', JString ''x'')])]),
        (body_no_error, JObject [(''servers'', JArray [])]),
        (body_bad_message,
           JObject [(''error'', JObject [(''code'', JString ''x''),
                                          (''message'', JNumber ''5'')])]),
        (body_array, JArray []),
        (body_empty_meta, JObject [(''meta'', JObject [])]),
        (body_bad_meta, JObject [(''meta'', JNumber ''5'')])]"

text \<open>
  Fetchers. Their state counts the calls made. \<open>page_response n\<close> is a response whose
  pagination reports the next page \<open>n\<close>.
\<close>

definition page_response :: "go_int \<Rightarrow> Response" where
  "page_response n =
     \<lparr>StatusCode = 200, Header = Map.empty, Body = BytesReader [] 0,
      Meta = zero_Meta\<lparr>Pagination := Some (zero_Pagination\<lparr>NextPage := n\<rparr>)\<rparr>\<rparr>"

definition three_pages :: "nat fetcher" where
  "three_pages page calls =
     ((Some (page_response (if page = 1 then 2 else if page = 2 then 3 else 0)), None),
      Suc calls)"

definition always_limited :: "nat fetcher" where
  "always_limited page calls =
     ((None, Some (Error ErrorCodeLimitReached ''rate limit exceeded'')), Suc calls)"

definition limited_once :: "nat fetcher" where
  "limited_once page calls =
     (if calls = 0 then (None, Some (Error ErrorCodeLimitReached ''rate limit exceeded''))
      else (Some (page_response 0), None),
      Suc calls)"

definition failing :: "go_error \<Rightarrow> nat fetcher" where
  "failing err page calls = ((None, Some err), Suc calls)"

section \<open>Properties\<close>

subsection \<open>Backoff\<close>

lemma ConstantBackoff_apply: "ConstantBackoff d n = d"
  by (simp add: ConstantBackoff_def)

lemma trunc_of_int: "trunc (of_int k) = k"
  by (simp add: trunc_def)

lemma trunc_three_halves: "trunc (3 / 2) = 1"
proof -
  have "\<lfloor>3 / 2 :: rat\<rfloor> = 1"
    by (rule floor_unique) simp_all
  then show ?thesis
    by (simp add: trunc_def)
qed

lemma ExponentialBackoff_zero: "ExponentialBackoff impl b d 0 = d"
  by (simp add: ExponentialBackoff_def math_Pow_def float64_to_int64_def trunc_def)

text \<open>
  For a base that is a natural number the truncation loses nothing: as long as the power
  fits \<^verbatim>\<open>int64\<close>, the result is the power times the unit (in \<^verbatim>\<open>int64\<close> arithmetic).
\<close>

lemma ExponentialBackoff_integral_base:
  assumes "0 \<le> sint n" and "int k ^ nat (sint n) < 2 ^ 63"
  shows "ExponentialBackoff impl (of_nat k) d n = word_of_int (int k ^ nat (sint n)) * d"
proof -
  have "(of_nat k :: rat) ^ nat (sint n) = of_int (int k ^ nat (sint n))"
    by simp
  then have t: "trunc ((of_nat k :: rat) ^ nat (sint n)) = int k ^ nat (sint n)"
    by (simp only: trunc_of_int)
  have "- (2 ^ 63) \<le> int k ^ nat (sint n)"
    by (rule order_trans [of _ 0]) simp_all
  with assms t show ?thesis
    by (simp add: ExponentialBackoff_def math_Pow_def float64_to_int64_def)
qed

text \<open>
  C1. The claim: for every base \<open>b \<ge> 0\<close>, unit \<open>d \<ge> 0\<close> and retry count \<open>n \<ge> 0\<close>,
  \<^verbatim>\<open>ExponentialBackoff(b, d)\<close> applied to \<open>n\<close> returns exactly \<open>pow(b, n) * d\<close>, the formula of
  the function's own doc comment (\<^verbatim>\<open>b^retries * d\<close>). The code converts the power to an
  integer before it multiplies, so the fraction of the power is lost: with base \<open>1.5\<close>,
  unit 500 ms and one retry it returns 500 ms (500000000 ns), where the formula gives
  750 ms (750000000 ns).
\<close>

theorem C1_ExponentialBackoff_truncates:
  "ExponentialBackoff impl (3 / 2) (500 * Millisecond) 1 = 500000000
   \<and> (500000000 :: Duration) \<noteq> 750000000"
  by (simp add: ExponentialBackoff_def math_Pow_def float64_to_int64_def
      trunc_three_halves Millisecond_def)

subsection \<open>The pagination driver\<close>

lemma all_body_limit_reached:
  assumes "fst (f p s) = (resp, Some (Error ErrorCodeLimitReached msg))"
  shows "all_body c f k p s tr =
     Running (k + 1) p (snd (f p s)) (tr @ [Fetch p, Sleep (backoffFunc c k)])"
  using assms by (cases "f p s") (simp add: all_body_def)

lemma all_body_other_error:
  assumes "fst (f p s) = (resp, Some e)" and "\<forall>msg. e \<noteq> Error ErrorCodeLimitReached msg"
  shows "all_body c f k p s tr = Returned None (Some e) (snd (f p s)) (tr @ [Fetch p])"
  using assms by (cases "f p s"; cases e) (simp_all add: all_body_def)

lemma all_body_success:
  assumes "fst (f p s) = (Some r, None)"
  shows "all_body c f k p s tr =
     (case Pagination (Meta r) of
        None \<Rightarrow> Returned (Some r) None (snd (f p s)) (tr @ [Fetch p])
      | Some pg \<Rightarrow>
          if NextPage pg = 0 then Returned (Some r) None (snd (f p s)) (tr @ [Fetch p])
          else Running 0 (NextPage pg) (snd (f p s)) (tr @ [Fetch p]))"
  using assms by (cases "f p s") (simp add: all_body_def split: option.splits)

lemma all_body_trace: "\<exists>tr'. trace (all_body c f k p s tr) = tr @ Fetch p # tr'"
  by (cases "f p s")
    (auto simp add: all_body_def split: option.splits go_error.splits)

lemma all_step_trace: "\<exists>tr'. trace (all_step c f st) = trace st @ tr'"
  using all_body_trace [of c f] by (cases st) (simp_all, blast)

lemma all_loop_trace: "\<exists>tr'. trace (all_loop n c f st) = trace st @ tr'"
proof (induction n arbitrary: st)
  case 0
  then show ?case by simp
next
  case (Suc n)
  obtain t1 where "trace (all_step c f st) = trace st @ t1"
    using all_step_trace by blast
  moreover obtain t2 where
    "trace (all_loop n c f (all_step c f st)) = trace (all_step c f st) @ t2"
    using Suc.IH by blast
  ultimately show ?case by simp
qed

lemma all_loop_finished:
  "all_loop n c f (Returned resp err s tr) = Returned resp err s tr"
  "all_loop n c f (Panicked s tr) = Panicked s tr"
  by (induction n) simp_all

lemma all_loop_limited:
  assumes "\<forall>s. \<exists>resp msg. fst (f p s) = (resp, Some (Error ErrorCodeLimitReached msg))"
  shows "all_loop n c f (Running k p s tr) =
     Running (k + of_nat n) p (((\<lambda>s. snd (f p s)) ^^ n) s)
       (tr @ concat (map (\<lambda>i. [Fetch p, Sleep (backoffFunc c (k + of_nat i))]) [0..<n]))"
proof (induction n arbitrary: k s tr)
  case 0
  then show ?case by simp
next
  case (Suc n)
  obtain resp msg where f: "fst (f p s) = (resp, Some (Error ErrorCodeLimitReached msg))"
    using assms by blast
  have shift: "map (\<lambda>i. [Fetch p, Sleep (backoffFunc c (k + of_nat i))]) [0..<Suc n] =
      [Fetch p, Sleep (backoffFunc c k)]
      # map (\<lambda>i. [Fetch p, Sleep (backoffFunc c (k + 1 + of_nat i))]) [0..<n]"
    by (simp add: upt_conv_Cons map_Suc_upt [symmetric] add.assoc del: upt_Suc)
  have step: "all_body c f k p s tr =
      Running (k + 1) p (snd (f p s)) (tr @ [Fetch p, Sleep (backoffFunc c k)])"
    using f by (rule all_body_limit_reached)
  have swap: "((\<lambda>s. snd (f p s)) ^^ n) (snd (f p s)) = ((\<lambda>s. snd (f p s)) ^^ Suc n) s"
    using funpow_swap1 [of "\<lambda>s. snd (f p s)" n s] by simp
  show ?case
    by (simp only: all_loop.simps all_step.simps step Suc.IH shift swap)
      (simp add: add.assoc)
qed

lemma all_Some_iff:
  "all c f s n = Some st \<longleftrightarrow>
     all_loop n c f (Running 0 1 s []) = st \<and> (\<forall>k p s' tr. st \<noteq> Running k p s' tr)"
  by (cases "all_loop n c f (Running 0 1 s [])") (auto simp add: all_def)

text \<open>
  C2. When the fetcher answers page \<open>p\<close> with an \<open>Error\<close> whose code is \<open>limit_reached\<close>,
  the iteration sleeps for the backoff of the current retry count, increments the retry
  count and goes on with the same page \<open>p\<close>. No maximum is enforced: against a fetcher
  that always answers so, \<open>n\<close> iterations fetch page \<open>p\<close> \<open>n\<close> times, sleeping for the
  backoff of \<open>k\<close>, \<open>k + 1\<close>, ... in between, and the loop is still running; so \<open>all\<close>
  has not returned within \<open>n\<close> iterations, whatever \<open>n\<close> is.
\<close>

theorem C2_limit_reached_retries_same_page:
  "(fst (f p s) = (resp, Some (Error ErrorCodeLimitReached msg)) \<longrightarrow>
      all_step c f (Running k p s tr) =
        Running (k + 1) p (snd (f p s)) (tr @ [Fetch p, Sleep (backoffFunc c k)]))
   \<and> ((\<forall>s. \<exists>resp msg. fst (f p s) = (resp, Some (Error ErrorCodeLimitReached msg))) \<longrightarrow>
      (\<forall>n. all_loop n c f (Running k p s tr) =
         Running (k + of_nat n) p (((\<lambda>s. snd (f p s)) ^^ n) s)
           (tr @ concat (map (\<lambda>i. [Fetch p, Sleep (backoffFunc c (k + of_nat i))]) [0..<n]))))
   \<and> ((\<forall>s. \<exists>resp msg. fst (f 1 s) = (resp, Some (Error ErrorCodeLimitReached msg))) \<longrightarrow>
      (\<forall>n. all c f s n = None))"
proof (intro conjI impI allI)
  assume "fst (f p s) = (resp, Some (Error ErrorCodeLimitReached msg))"
  then show "all_step c f (Running k p s tr) =
      Running (k + 1) p (snd (f p s)) (tr @ [Fetch p, Sleep (backoffFunc c k)])"
    by (simp add: all_body_limit_reached)
next
  fix n
  assume "\<forall>s. \<exists>resp msg. fst (f p s) = (resp, Some (Error ErrorCodeLimitReached msg))"
  then show "all_loop n c f (Running k p s tr) =
      Running (k + of_nat n) p (((\<lambda>s. snd (f p s)) ^^ n) s)
        (tr @ concat (map (\<lambda>i. [Fetch p, Sleep (backoffFunc c (k + of_nat i))]) [0..<n]))"
    by (rule all_loop_limited)
next
  fix n
  assume "\<forall>s. \<exists>resp msg. fst (f 1 s) = (resp, Some (Error ErrorCodeLimitReached msg))"
  then have "all_loop n c f (Running 0 1 s []) =
      Running (0 + of_nat n) 1 (((\<lambda>s. snd (f 1 s)) ^^ n) s)
        ([] @ concat (map (\<lambda>i. [Fetch 1, Sleep (backoffFunc c (0 + of_nat i))]) [0..<n]))"
    by (rule all_loop_limited)
  then show "all c f s n = None"
    by (simp add: all_def)
qed

lemma always_limited_fst:
  "fst (always_limited p s) = (None, Some (Error ErrorCodeLimitReached ''rate limit exceeded''))"
  by (simp add: always_limited_def)

theorem C2_witness:
  "all_step sample_client always_limited (Running 0 1 0 []) =
     Running 1 1 1 [Fetch 1, Sleep 500000000]
   \<and> all_loop 2 sample_client always_limited (Running 0 1 0 []) =
     Running 2 1 2 [Fetch 1, Sleep 500000000, Fetch 1, Sleep 500000000]
   \<and> all sample_client always_limited 0 2 = None"
proof -
  have h: "\<forall>s. \<exists>resp msg.
      fst (always_limited 1 s) = (resp, Some (Error ErrorCodeLimitReached msg))"
    by (simp add: always_limited_def)
  note inst = C2_limit_reached_retries_same_page
    [of always_limited 1 0 None "''rate limit exceeded''" sample_client 0 "[]"]
  have a: "all_step sample_client always_limited (Running 0 1 0 []) =
      Running (0 + 1) 1 (snd (always_limited 1 0))
        ([] @ [Fetch 1, Sleep (backoffFunc sample_client 0)])"
    using inst always_limited_fst by blast
  have b: "all_loop 2 sample_client always_limited (Running 0 1 0 []) =
      Running (0 + of_nat 2) 1 (((\<lambda>s. snd (always_limited 1 s)) ^^ 2) 0)
        ([] @ concat (map (\<lambda>i. [Fetch 1, Sleep (backoffFunc sample_client (0 + of_nat i))])
           [0..<2]))"
    using inst h by blast
  have c: "all sample_client always_limited 0 2 = None"
    using inst h by blast
  have u: "[0..<2] = [0, Suc 0]"
    by (simp add: upt_rec)
  show ?thesis
    using a b c
    by (simp add: always_limited_def sample_client_def ConstantBackoff_def Millisecond_def
        u numeral_2_eq_2)
qed

text \<open>
  The fetcher that is rate limited on its first call only: the driver fetches page 1,
  sleeps, fetches page 1 again and returns that response.
\<close>

lemma limited_once_retries:
  "all sample_client limited_once 0 2 =
     Some (Returned (Some (page_response 0)) None 2 [Fetch 1, Sleep 500000000, Fetch 1])"
  by (simp add: all_def numeral_2_eq_2 all_body_def limited_once_def sample_client_def
      ConstantBackoff_def Millisecond_def ErrorCodeLimitReached_def page_response_def
      zero_Meta_def zero_Pagination_def)

lemma all_Suc_finished:
  assumes "all_body c f 0 1 s [] = st" and "\<forall>k p s' tr. st \<noteq> Running k p s' tr"
  shows "all c f s (Suc n) = Some st"
proof -
  have "all_loop (Suc n) c f (Running 0 1 s []) = all_loop n c f st"
    using assms(1) by simp
  also have "\<dots> = st"
    using assms(2) by (cases st) (simp_all add: all_loop_finished)
  finally show ?thesis
    using assms(2) by (simp add: all_Some_iff)
qed

lemma all_first_fetch:
  assumes "all c f s n = Some st"
  shows "\<exists>tr'. trace st = Fetch 1 # tr'"
proof (cases n)
  case 0
  with assms show ?thesis by (simp add: all_def)
next
  case (Suc m)
  obtain t1 where t1: "trace (all_body c f 0 1 s []) = Fetch 1 # t1"
    using all_body_trace [of c f 0 1 s "[]"] by auto
  obtain t2 where
    "trace (all_loop m c f (all_body c f 0 1 s [])) = trace (all_body c f 0 1 s []) @ t2"
    using all_loop_trace by blast
  with t1 have "trace (all_loop n c f (Running 0 1 s [])) = Fetch 1 # t1 @ t2"
    using Suc by simp
  moreover have "all_loop n c f (Running 0 1 s []) = st"
    using assms by (simp add: all_Some_iff)
  ultimately show ?thesis by simp
qed

lemma all_three_pages:
  assumes "f 1 s = ((Some r1, None), s1)" "Pagination (Meta r1) = Some p1" "NextPage p1 = 2"
    and "f 2 s1 = ((Some r2, None), s2)" "Pagination (Meta r2) = Some p2" "NextPage p2 = 3"
    and "f 3 s2 = ((Some r3, None), s3)" "Pagination (Meta r3) = Some p3" "NextPage p3 = 0"
  shows "all c f s (n + 3) = Some (Returned (Some r3) None s3 [Fetch 1, Fetch 2, Fetch 3])"
proof -
  have 1: "all_body c f 0 1 s [] = Running 0 2 s1 [Fetch 1]"
    using assms(1-3) by (simp add: all_body_def)
  have 2: "all_body c f 0 2 s1 [Fetch 1] = Running 0 3 s2 [Fetch 1, Fetch 2]"
    using assms(4-6) by (simp add: all_body_def)
  have 3: "all_body c f 0 3 s2 [Fetch 1, Fetch 2] =
      Returned (Some r3) None s3 [Fetch 1, Fetch 2, Fetch 3]"
    using assms(7-9) by (simp add: all_body_def)
  have "n + 3 = Suc (Suc (Suc n))"
    by simp
  then have "all_loop (n + 3) c f (Running 0 1 s []) =
      Returned (Some r3) None s3 [Fetch 1, Fetch 2, Fetch 3]"
    by (simp only: all_loop.simps all_step.simps 1 2 3 all_loop_finished)
  then show ?thesis
    by (simp add: all_def)
qed

text \<open>
  C3. The driver starts at page 1: whatever \<open>all\<close> returns, its first event is the fetch
  of page 1. After a successful fetch (a response and no error) the iteration returns
  that response without error exactly when its \<open>Pagination\<close> is nil or its \<open>NextPage\<close> is
  0; otherwise it goes on with the retry count 0 and the page \<open>NextPage\<close>. So a fetcher
  whose first response reports \<open>next_page = 0\<close> is called exactly once, and one whose
  pages 1 and 2 report the following page and whose page 3 reports 0 is called exactly
  three times, for the pages 1, 2, 3 in this order, and \<open>all\<close> returns the third response
  without error (with any fuel of at least 1, respectively 3, iterations).
\<close>

theorem C3_pages_followed_until_last:
  "(all c f s n = Some st \<longrightarrow> (\<exists>tr'. trace st = Fetch 1 # tr'))
   \<and> (fst (f p s) = (Some r, None) \<longrightarrow>
        all_step c f (Running k p s tr) =
          (case Pagination (Meta r) of
             None \<Rightarrow> Returned (Some r) None (snd (f p s)) (tr @ [Fetch p])
           | Some pg \<Rightarrow>
               if NextPage pg = 0 then Returned (Some r) None (snd (f p s)) (tr @ [Fetch p])
               else Running 0 (NextPage pg) (snd (f p s)) (tr @ [Fetch p])))
   \<and> (fst (f 1 s) = (Some r, None) \<and> Pagination (Meta r) = Some pg \<and> NextPage pg = 0 \<longrightarrow>
        all c f s (Suc n) = Some (Returned (Some r) None (snd (f 1 s)) [Fetch 1]))
   \<and> (f 1 s = ((Some r1, None), s1) \<and> Pagination (Meta r1) = Some p1 \<and> NextPage p1 = 2
        \<and> f 2 s1 = ((Some r2, None), s2) \<and> Pagination (Meta r2) = Some p2 \<and> NextPage p2 = 3
        \<and> f 3 s2 = ((Some r3, None), s3) \<and> Pagination (Meta r3) = Some p3 \<and> NextPage p3 = 0 \<longrightarrow>
        all c f s (n + 3) = Some (Returned (Some r3) None s3 [Fetch 1, Fetch 2, Fetch 3]))"
proof (intro conjI impI)
  assume "all c f s n = Some st"
  then show "\<exists>tr'. trace st = Fetch 1 # tr'"
    by (rule all_first_fetch)
next
  assume "fst (f p s) = (Some r, None)"
  then show "all_step c f (Running k p s tr) =
      (case Pagination (Meta r) of
         None \<Rightarrow> Returned (Some r) None (snd (f p s)) (tr @ [Fetch p])
       | Some pg \<Rightarrow>
           if NextPage pg = 0 then Returned (Some r) None (snd (f p s)) (tr @ [Fetch p])
           else Running 0 (NextPage pg) (snd (f p s)) (tr @ [Fetch p]))"
    by (simp add: all_body_success)
next
  assume a: "fst (f 1 s) = (Some r, None) \<and> Pagination (Meta r) = Some pg \<and> NextPage pg = 0"
  then have "all_body c f 0 1 s [] = Returned (Some r) None (snd (f 1 s)) [Fetch 1]"
    by (simp add: all_body_success)
  then show "all c f s (Suc n) = Some (Returned (Some r) None (snd (f 1 s)) [Fetch 1])"
    by (rule all_Suc_finished) simp
next
  assume "f 1 s = ((Some r1, None), s1) \<and> Pagination (Meta r1) = Some p1 \<and> NextPage p1 = 2
        \<and> f 2 s1 = ((Some r2, None), s2) \<and> Pagination (Meta r2) = Some p2 \<and> NextPage p2 = 3
        \<and> f 3 s2 = ((Some r3, None), s3) \<and> Pagination (Meta r3) = Some p3 \<and> NextPage p3 = 0"
  then show "all c f s (n + 3) = Some (Returned (Some r3) None s3 [Fetch 1, Fetch 2, Fetch 3])"
    by (elim conjE) (rule all_three_pages)
qed

theorem C3_witness:
  "all sample_client three_pages 0 3 =
     Some (Returned (Some (page_response 0)) None 3 [Fetch 1, Fetch 2, Fetch 3])
   \<and> all sample_client limited_once 1 1 =
     Some (Returned (Some (page_response 0)) None 2 [Fetch 1])
   \<and> all_step sample_client three_pages (Running 4 1 0 []) = Running 0 2 1 [Fetch 1]
   \<and> hd (trace (the (all sample_client three_pages 0 3))) = Fetch 1"
proof -
  note inst = C3_pages_followed_until_last
    [where c = sample_client and n = 0 and k = 4 and tr = "[]",
      where p = 1 and r = "page_response 2" and pg = "zero_Pagination\<lparr>NextPage := 0\<rparr>",
      where ?r1.0 = "page_response 2" and ?s1.0 = 1 and ?p1.0 = "zero_Pagination\<lparr>NextPage := 2\<rparr>",
      where ?r2.0 = "page_response 3" and ?s2.0 = 2 and ?p2.0 = "zero_Pagination\<lparr>NextPage := 3\<rparr>",
      where ?r3.0 = "page_response 0" and ?s3.0 = 3 and ?p3.0 = "zero_Pagination\<lparr>NextPage := 0\<rparr>"]
  have a: "all sample_client three_pages 0 (0 + 3) =
      Some (Returned (Some (page_response 0)) None 3 [Fetch 1, Fetch 2, Fetch 3])"
    using inst [where f = three_pages and s = 0]
    by (simp add: three_pages_def page_response_def)
  have b: "all_step sample_client three_pages (Running 4 1 0 []) = Running 0 2 1 [Fetch 1]"
    using inst [where f = three_pages and s = 0]
    by (simp add: three_pages_def page_response_def)
  have c: "all sample_client limited_once 1 (Suc 0) =
      Some (Returned (Some (page_response 0)) None 2 [Fetch 1])"
    using C3_pages_followed_until_last
      [where c = sample_client and f = limited_once and s = 1 and n = 0
        and r = "page_response 0" and pg = "zero_Pagination\<lparr>NextPage := 0\<rparr>"]
    by (simp add: limited_once_def page_response_def)
  have "\<exists>tr'. trace (Returned (Some (page_response 0)) None (3::nat)
      [Fetch 1, Fetch 2, Fetch 3]) = Fetch 1 # tr'"
    using a C3_pages_followed_until_last
      [where c = sample_client and f = three_pages and s = 0 and n = 3
        and st = "Returned (Some (page_response 0)) None 3 [Fetch 1, Fetch 2, Fetch 3]"]
    by simp
  then have d: "hd (trace (the (all sample_client three_pages 0 3))) = Fetch 1"
    using a by auto
  from a b c d show ?thesis by simp
qed

text \<open>
  C4. The claim: an error of a fetch that is not an \<open>Error\<close> with code \<open>limit_reached\<close>
  is returned at once, with a nil response and no further fetch, and this retry is the
  only error path the core retries or swallows.

  As amended, the last clause is about the pagination driver: when a fetch returns an
  error that is not an \<open>Error\<close> with code \<open>limit_reached\<close> (a transport error, an \<open>Error\<close>
  with any other code, ...), the iteration returns that same error with a nil response,
  whatever response came with it, and nothing is fetched afterwards; in particular such
  an error on the first fetch is what \<open>all\<close> returns. An error of the fetcher after which
  the loop goes on is an \<open>Error\<close> with code \<open>limit_reached\<close>: the driver retries or drops
  no other error. (Elsewhere the core does drop errors: in \<open>errorFromResponse\<close> and in
  \<open>readMeta\<close>.)
\<close>

theorem C4_other_errors_returned_at_once:
  "(fst (f p s) = (resp, Some e) \<and> (\<forall>msg. e \<noteq> Error ErrorCodeLimitReached msg) \<longrightarrow>
      all_step c f (Running k p s tr) = Returned None (Some e) (snd (f p s)) (tr @ [Fetch p])
      \<and> (\<forall>n. all_loop n c f (all_step c f (Running k p s tr)) =
             Returned None (Some e) (snd (f p s)) (tr @ [Fetch p])))
   \<and> (fst (f 1 s) = (resp, Some e) \<and> (\<forall>msg. e \<noteq> Error ErrorCodeLimitReached msg) \<longrightarrow>
      (\<forall>n. all c f s (Suc n) = Some (Returned None (Some e) (snd (f 1 s)) [Fetch 1])))
   \<and> (fst (f p s) = (resp, Some e) \<and> all_step c f (Running k p s tr) = Running k' p' s' tr' \<longrightarrow>
      (\<exists>msg. e = Error ErrorCodeLimitReached msg))"
proof (intro conjI impI allI)
  assume a: "fst (f p s) = (resp, Some e) \<and> (\<forall>msg. e \<noteq> Error ErrorCodeLimitReached msg)"
  then show step: "all_step c f (Running k p s tr) =
      Returned None (Some e) (snd (f p s)) (tr @ [Fetch p])"
    by (simp add: all_body_other_error)
  fix n
  show "all_loop n c f (all_step c f (Running k p s tr)) =
      Returned None (Some e) (snd (f p s)) (tr @ [Fetch p])"
    by (simp only: step all_loop_finished)
next
  fix n
  assume a: "fst (f 1 s) = (resp, Some e) \<and> (\<forall>msg. e \<noteq> Error ErrorCodeLimitReached msg)"
  then have "all_body c f 0 1 s [] = Returned None (Some e) (snd (f 1 s)) ([] @ [Fetch 1])"
    by (intro all_body_other_error) simp_all
  then have "all_body c f 0 1 s [] = Returned None (Some e) (snd (f 1 s)) [Fetch 1]"
    by simp
  then show "all c f s (Suc n) = Some (Returned None (Some e) (snd (f 1 s)) [Fetch 1])"
    by (rule all_Suc_finished) simp
next
  assume a: "fst (f p s) = (resp, Some e) \<and> all_step c f (Running k p s tr) = Running k' p' s' tr'"
  then have r: "all_body c f k p s tr = Running k' p' s' tr'"
    by simp
  show "\<exists>msg. e = Error ErrorCodeLimitReached msg"
  proof (rule ccontr)
    assume "\<not> (\<exists>msg. e = Error ErrorCodeLimitReached msg)"
    then have "\<forall>msg. e \<noteq> Error ErrorCodeLimitReached msg"
      by simp
    with a have "all_body c f k p s tr = Returned None (Some e) (snd (f p s)) (tr @ [Fetch p])"
      by (intro all_body_other_error) simp_all
    with r show False by simp
  qed
qed

theorem C4_witness:
  "all_step sample_client (failing (OtherError ''connection reset'')) (Running 2 3 0 [Fetch 1]) =
     Returned None (Some (OtherError ''connection reset'')) 1 [Fetch 1, Fetch 3]
   \<and> all sample_client (failing (Error ''not_found'' ''no such server'')) 0 5 =
     Some (Returned None (Some (Error ''not_found'' ''no such server'')) 1 [Fetch 1])
   \<and> all_step sample_client always_limited (Running 0 1 0 []) =
     Running 1 1 1 [Fetch 1, Sleep 500000000]"
proof -
  have a: "all_step sample_client (failing (OtherError ''connection reset''))
      (Running 2 3 0 [Fetch 1]) =
      Returned None (Some (OtherError ''connection reset'')) 1 [Fetch 1, Fetch 3]"
    using C4_other_errors_returned_at_once
      [where f = "failing (OtherError ''connection reset'')" and p = 3 and s = 0
        and resp = None and e = "OtherError ''connection reset''" and c = sample_client
        and k = 2 and tr = "[Fetch 1]"]
    by (simp add: failing_def)
  have "\<forall>n. all sample_client (failing (Error ''not_found'' ''no such server'')) 0 (Suc n) =
      Some (Returned None (Some (Error ''not_found'' ''no such server'')) 1 [Fetch 1])"
    using C4_other_errors_returned_at_once
      [where f = "failing (Error ''not_found'' ''no such server'')" and s = 0
        and resp = None and e = "Error ''not_found'' ''no such server''" and c = sample_client]
    by (simp add: failing_def ErrorCodeLimitReached_def)
  from this [THEN spec, of 4]
  have b: "all sample_client (failing (Error ''not_found'' ''no such server'')) 0 5 =
      Some (Returned None (Some (Error ''not_found'' ''no such server'')) 1 [Fetch 1])"
    by simp
  have c: "all_step sample_client always_limited (Running 0 1 0 []) =
      Running 1 1 1 [Fetch 1, Sleep 500000000]"
    by (simp add: all_body_def always_limited_def sample_client_def ConstantBackoff_def
        Millisecond_def)
  have "\<exists>msg. Error ErrorCodeLimitReached ''rate limit exceeded'' = Error ErrorCodeLimitReached msg"
    using c C4_other_errors_returned_at_once
      [where f = always_limited and p = 1 and s = 0 and resp = None
        and e = "Error ErrorCodeLimitReached ''rate limit exceeded''" and c = sample_client
        and k = 0 and tr = "[]" and k' = 1 and p' = 1 and s' = 1
        and tr' = "[Fetch 1, Sleep 500000000]"]
    by (simp add: always_limited_def)
  with a b c show ?thesis by simp
qed

subsection \<open>Reading the meta data\<close>

lemma readMeta_http:
  "StatusCode (fst (readMeta scan r body)) = StatusCode r"
  "Header (fst (readMeta scan r body)) = Header r"
  "Body (fst (readMeta scan r body)) = Body r"
  by (simp_all add: readMeta_def Let_def split: prod.splits option.splits)

lemma readMeta_Ratelimit:
  "Limit (Ratelimit (Meta (fst (readMeta scan r body)))) =
     (if Header_Get (Header r) ''RateLimit-Limit'' \<noteq> []
      then fst (Atoi (Header_Get (Header r) ''RateLimit-Limit''))
      else Limit (Ratelimit (Meta r)))"
  "Remaining (Ratelimit (Meta (fst (readMeta scan r body)))) =
     (if Header_Get (Header r) ''RateLimit-Remaining'' \<noteq> []
      then fst (Atoi (Header_Get (Header r) ''RateLimit-Remaining''))
      else Remaining (Ratelimit (Meta r)))"
  "Reset (Ratelimit (Meta (fst (readMeta scan r body)))) =
     (if Header_Get (Header r) ''RateLimit-Reset'' \<noteq> []
         \<and> snd (ParseInt (Header_Get (Header r) ''RateLimit-Reset'')) = None
      then Unix (fst (ParseInt (Header_Get (Header r) ''RateLimit-Reset'')))
      else Reset (Ratelimit (Meta r)))"
  by (auto simp add: readMeta_def Let_def split: prod.splits option.splits)

lemma readMeta_not_json:
  assumes "\<not> HasPrefix (Header_Get (Header r) ''Content-Type'') ''application/json''"
  shows "snd (readMeta scan r body) = None"
    and "Pagination (Meta (fst (readMeta scan r body))) = Pagination (Meta r)"
  using assms by (simp_all add: readMeta_def Let_def)

lemma readMeta_json:
  assumes "HasPrefix (Header_Get (Header r) ''Content-Type'') ''application/json''"
  shows "snd (readMeta scan r body) = snd (json_Unmarshal scan meta_decoder body zero_Pagination)"
    and "Pagination (Meta (fst (readMeta scan r body))) =
      (case snd (json_Unmarshal scan meta_decoder body zero_Pagination) of
         None \<Rightarrow> Some (fst (json_Unmarshal scan meta_decoder body zero_Pagination))
       | Some err \<Rightarrow> Pagination (Meta r))"
  using assms by (simp_all add: readMeta_def Let_def split: prod.splits option.splits)

lemma parse_digits_syntax_zero:
  "snd (parse_digits s n) = Some ErrSyntax \<Longrightarrow> fst (parse_digits s n) = 0"
  by (induction s arbitrary: n) (auto split: if_splits)

lemma ParseInt_syntax_zero: "snd (ParseInt s) = Some ErrSyntax \<Longrightarrow> fst (ParseInt s) = 0"
  by (auto simp add: ParseInt_def ParseUint_def Let_def
      split: if_splits prod.splits option.splits NumError.splits)

lemma Atoi_syntax_zero: "snd (Atoi s) = Some ErrSyntax \<Longrightarrow> fst (Atoi s) = 0"
  by (simp add: Atoi_def ParseInt_syntax_zero)

text \<open>
  C6. The claim: each of the three rate-limit fields is parsed from its own header, and a
  header that is missing or does not parse as an integer leaves the field at its zero
  value, without an error. \<open>readMeta\<close> assigns the value \<^verbatim>\<open>strconv.Atoi\<close> returns to \<open>Limit\<close>
  and \<open>Remaining\<close> whatever the error, and \<^verbatim>\<open>Atoi\<close> returns the largest \<^verbatim>\<open>int\<close> with its
  range error: for the header \<^verbatim>\<open>RateLimit-Limit: 9223372036854775808\<close>, which \<^verbatim>\<open>Atoi\<close>
  fails to parse, \<open>Limit\<close> is 9223372036854775807 and not 0. (\<open>Reset\<close>, whose code checks
  the error, stays at the zero time for the same header value, and \<open>Remaining\<close> is 0 for
  a header that is not a number; no error is returned.)
\<close>

theorem C6_out_of_range_header_not_zero:
  "snd (Atoi ''9223372036854775808'') = Some ErrRange
   \<and> Limit (Ratelimit (Meta (fst (readMeta scan
        (new_Response (ratelimit_response ''9223372036854775808'' ''many'' ''9223372036854775808''))
        body)))) = 9223372036854775807
   \<and> Remaining (Ratelimit (Meta (fst (readMeta scan
        (new_Response (ratelimit_response ''9223372036854775808'' ''many'' ''9223372036854775808''))
        body)))) = 0
   \<and> Reset (Ratelimit (Meta (fst (readMeta scan
        (new_Response (ratelimit_response ''9223372036854775808'' ''many'' ''9223372036854775808''))
        body)))) = ZeroTime
   \<and> snd (readMeta scan
        (new_Response (ratelimit_response ''9223372036854775808'' ''many'' ''9223372036854775808''))
        body) = None"
proof -
  have p: "ParseInt ''9223372036854775808'' = (9223372036854775807, Some ErrRange)"
    by (simp add: ParseInt_def ParseUint_def is_digit_def digit_val_def)
  have q: "ParseInt ''many'' = (0, Some ErrSyntax)"
    by (simp add: ParseInt_def ParseUint_def is_digit_def)
  let ?r = "new_Response
      (ratelimit_response ''9223372036854775808'' ''many'' ''9223372036854775808'')"
  have h: "\<not> HasPrefix (Header_Get (Header ?r) ''Content-Type'') ''application/json''"
    by (simp add: new_Response_def ratelimit_response_def Header_Get_def HasPrefix_def)
  have e: "snd (readMeta scan ?r body) = None"
    using h by (rule readMeta_not_json)
  have a: "snd (Atoi ''9223372036854775808'') = Some ErrRange"
    by (simp add: Atoi_def p)
  have l: "Limit (Ratelimit (Meta (fst (readMeta scan ?r body)))) = 9223372036854775807"
    by (simp add: readMeta_Ratelimit p Atoi_def new_Response_def ratelimit_response_def
        Header_Get_def)
  have m: "Remaining (Ratelimit (Meta (fst (readMeta scan ?r body)))) = 0"
    by (simp add: readMeta_Ratelimit q Atoi_def new_Response_def ratelimit_response_def
        Header_Get_def)
  have t: "Reset (Ratelimit (Meta (fst (readMeta scan ?r body)))) = ZeroTime"
    by (simp add: readMeta_Ratelimit p new_Response_def ratelimit_response_def
        Header_Get_def zero_Meta_def)
  from a l m t e show ?thesis
    by (intro conjI)
qed

subsection \<open>\<open>Do\<close> and \<open>ReadBody\<close>\<close>

lemma errorFromResponse_Header:
  "Header r = Header r' \<Longrightarrow> errorFromResponse scan r body = errorFromResponse scan r' body"
  by (simp add: errorFromResponse_def)

lemma new_Response_http:
  "StatusCode (new_Response resp) = StatusCode resp"
  "Header (new_Response resp) = Header resp"
  "Body (new_Response resp) = Body resp"
  "Meta (new_Response resp) = zero_Meta"
  by (simp_all add: new_Response_def)

lemma Do_buffered:
  assumes "httpClient c r = Inr resp" and "ReadAll (Body resp) = ((body, None), rd)"
  shows "Do scan c r v =
     (Some (fst (readMeta scan ((new_Response resp)\<lparr>Body := BytesReader body 0\<rparr>) body)),
      case snd (readMeta scan ((new_Response resp)\<lparr>Body := BytesReader body 0\<rparr>) body) of
        Some err \<Rightarrow> Some (MetaDataError err)
      | None \<Rightarrow>
          if 400 \<le> sint (StatusCode resp) \<and> sint (StatusCode resp) \<le> 599
          then (case errorFromResponse scan resp body of
                  None \<Rightarrow> Some (StatusCodeError (StatusCode resp))
                | Some err \<Rightarrow> Some err)
          else (case v of NoTarget \<Rightarrow> None | Writer w \<Rightarrow> w body | Value u \<Rightarrow> u body))"
proof -
  let ?r0 = "(new_Response resp)\<lparr>Body := BytesReader body 0\<rparr>"
  obtain r1 e1 where rm: "readMeta scan ?r0 body = (r1, e1)"
    by (cases "readMeta scan ?r0 body")
  have sc: "StatusCode r1 = StatusCode resp" and hd: "Header r1 = Header resp"
    using readMeta_http(1,2) [of scan ?r0 body] rm by (simp_all add: new_Response_http)
  have ef: "errorFromResponse scan r1 body = errorFromResponse scan resp body"
    using hd by (rule errorFromResponse_Header)
  show ?thesis
    using assms rm sc ef
    by (auto simp add: Do_def Let_def new_Response_http split: option.splits target.splits)
qed

lemma ReadBody_buffered:
  assumes "Body r = BytesReader b 0"
  shows "ReadBody r = ((Some b, None), r)"
proof -
  have "r\<lparr>Body := BytesReader b 0\<rparr> = r"
    using assms by simp
  with assms show ?thesis
    by (simp add: ReadBody_def)
qed

text \<open>
  C8. When the transport has answered and \<open>Do\<close> has read the body \<open>body\<close> into memory,
  \<open>ReadBody\<close> on the response \<open>Do\<close> returns yields \<open>body\<close> without error, and so does a
  second \<open>ReadBody\<close> after it; after each read the body is again a reader at the start
  of the same bytes.
\<close>

theorem C8_ReadBody_repeatable:
  assumes "httpClient c r = Inr resp" and "ReadAll (Body resp) = ((body, None), rd)"
    and "Do scan c r v = (Some response, err)"
  shows "fst (ReadBody response) = (Some body, None)
    \<and> fst (ReadBody (snd (ReadBody response))) = (Some body, None)
    \<and> Body (snd (ReadBody response)) = BytesReader body 0
    \<and> Body (snd (ReadBody (snd (ReadBody response)))) = BytesReader body 0"
proof -
  have "response = fst (readMeta scan ((new_Response resp)\<lparr>Body := BytesReader body 0\<rparr>) body)"
    using assms(3) Do_buffered [OF assms(1,2), of scan v] by simp
  then have "Body response = BytesReader body 0"
    by (simp add: readMeta_http)
  then have "ReadBody response = ((Some body, None), response)"
    by (rule ReadBody_buffered)
  then show ?thesis
    using \<open>Body response = BytesReader body 0\<close> by simp
qed

text \<open>
  C9. When the Content-Type of the response starts with \<^verbatim>\<open>application/json\<close> and the body
  is not valid JSON, \<open>Do\<close> returns the error of reading the meta data (wrapping the
  syntax error of \<^verbatim>\<open>json.Unmarshal\<close>), whatever the status code is: for a status in
  400..599 the caller gets neither the typed \<open>Error\<close> nor the status code error. The
  response returned with it has no \<open>Pagination\<close>.
\<close>

theorem C9_invalid_json_body_is_meta_error:
  assumes "httpClient c r = Inr resp" and "ReadAll (Body resp) = ((body, None), rd)"
    and "HasPrefix (Header_Get (Header resp) ''Content-Type'') ''application/json''"
    and "scan body = None"
  shows "snd (Do scan c r v) = Some (MetaDataError (JSONError SyntaxError))
    \<and> (\<exists>response. fst (Do scan c r v) = Some response \<and> Pagination (Meta response) = None)"
proof -
  let ?r0 = "(new_Response resp)\<lparr>Body := BytesReader body 0\<rparr>"
  have h: "HasPrefix (Header_Get (Header ?r0) ''Content-Type'') ''application/json''"
    using assms(3) by (simp add: new_Response_http)
  have u: "snd (json_Unmarshal scan meta_decoder body zero_Pagination) = Some (JSONError SyntaxError)"
    using assms(4) by (simp add: json_Unmarshal_def)
  have "snd (readMeta scan ?r0 body) = Some (JSONError SyntaxError)"
    and "Pagination (Meta (fst (readMeta scan ?r0 body))) = None"
    using readMeta_json [OF h, of scan body] u
    by (simp_all add: new_Response_http zero_Meta_def)
  then show ?thesis
    using Do_buffered [OF assms(1,2), of scan v] by simp
qed

lemma serving_httpClient: "httpClient (serving resp) r = Inr resp"
  by (simp add: serving_def sample_client_def)

lemma json_response_http:
  "StatusCode (json_response code body) = code"
  "Header_Get (Header (json_response code body)) ''Content-Type'' = ''application/json; charset=utf-8''"
  "ReadAll (Body (json_response code body)) = ((body, None), Stream [] None)"
  by (simp_all add: json_response_def Header_Get_def)

lemma html_response_http:
  "StatusCode (html_response code body) = code"
  "Header_Get (Header (html_response code body)) ''Content-Type'' = ''text/html''"
  "ReadAll (Body (html_response code body)) = ((body, None), Stream [] None)"
  by (simp_all add: html_response_def Header_Get_def)

lemma sample_scan_simps:
  "sample_scan body_not_found =
     Some (JObject [(''error'', JObject [(''code'', JString ''not_found''),
                                         (''message'', JString ''x'')])])"
  "sample_scan body_no_error = Some (JObject [(''servers'', JArray [])])"
  "sample_scan body_bad_message =
     Some (JObject [(''error'', JObject [(''code'', JString ''x''),
                                         (''message'', JNumber ''5'')])])"
  "sample_scan body_array = Some (JArray [])"
  "sample_scan body_empty_meta = Some (JObject [(''meta'', JObject [])])"
  "sample_scan body_html = None"
  "sample_scan body_bad_meta = Some (JObject [(''meta'', JNumber ''5'')])"
  by (simp_all add: sample_scan_def body_not_found_def body_no_error_def body_bad_message_def
      body_array_def body_empty_meta_def body_html_def body_bad_meta_def)

theorem C8_witness:
  "fst (ReadBody (the (fst (Do sample_scan (serving (json_response 200 body_no_error))
      sample_request NoTarget)))) = (Some body_no_error, None)
   \<and> fst (ReadBody (snd (ReadBody (the (fst (Do sample_scan
      (serving (json_response 200 body_no_error)) sample_request NoTarget)))))) =
      (Some body_no_error, None)"
proof -
  let ?c = "serving (json_response 200 body_no_error)"
  have d: "Do sample_scan ?c sample_request NoTarget =
      (Some (the (fst (Do sample_scan ?c sample_request NoTarget))),
       snd (Do sample_scan ?c sample_request NoTarget))"
    by (simp add: Do_buffered [OF serving_httpClient json_response_http(3)])
  show ?thesis
    using C8_ReadBody_repeatable [OF serving_httpClient json_response_http(3) d]
    by simp
qed

theorem C9_witness:
  "snd (Do sample_scan (serving (json_response 502 body_html)) sample_request NoTarget) =
     Some (MetaDataError (JSONError SyntaxError))
   \<and> 400 \<le> sint (StatusCode (json_response 502 body_html))
   \<and> sint (StatusCode (json_response 502 body_html)) \<le> 599"
proof -
  have h: "HasPrefix (Header_Get (Header (json_response 502 body_html)) ''Content-Type'')
      ''application/json''"
    by (simp add: json_response_http HasPrefix_def)
  show ?thesis
    using C9_invalid_json_body_is_meta_error
      [where scan = sample_scan and body = body_html and r = sample_request and v = NoTarget,
        OF serving_httpClient json_response_http(3) h sample_scan_simps(6)]
    by (simp add: json_response_http)
qed

subsection \<open>The pagination block\<close>

lemma find_field_single:
  "find_field [(name, d)] key = (if selects name key then Some d else None)"
  by (auto simp add: find_field_def selects_def)

lemma foldl_decode_member_skip:
  assumes "list_all (\<lambda>kv. \<not> selects name (fst kv)) kvs"
  shows "foldl (decode_member [(name, d)]) acc kvs = acc"
  using assms
  by (induction kvs arbitrary: acc) (simp_all add: decode_member_def find_field_single)

lemma decode_struct_no_member:
  assumes "no_member name j"
  shows "decode_struct [(name, d)] j v = (v, True)"
  using assms
  by (cases j) (simp_all add: decode_struct_def no_member_def foldl_decode_member_skip)

lemma foldl_decode_member_meta:
  assumes "list_all (\<lambda>kv. if selects ''meta'' (fst kv) then no_member ''pagination'' (snd kv) else True) kvs"
  shows "foldl (decode_member [(''meta'', decode_struct [(''pagination'', d)])]) (v, True) kvs = (v, True)"
  using assms
proof (induction kvs)
  case Nil
  then show ?case by simp
next
  case (Cons kv kvs)
  have "decode_member [(''meta'', decode_struct [(''pagination'', d)])] (v, True) kv = (v, True)"
    using Cons.prems
    by (simp add: decode_member_def find_field_single decode_struct_no_member)
  with Cons show ?case by simp
qed

lemma meta_decoder_no_pagination:
  assumes "no_pagination j"
  shows "meta_decoder j v = (v, True)"
  using assms
  by (cases j)
    (simp_all add: meta_decoder_def decode_struct_def [of "[(''meta'', _)]"] no_pagination_def
      foldl_decode_member_meta)





subsection \<open>Error classification\<close>

lemma errorFromResponse_cases:
  assumes "json_Unmarshal scan apiError_decoder body \<lparr>Code = [], Message = []\<rparr> = (a, ue)"
  shows "errorFromResponse scan resp body =
     (if \<not> HasPrefix (Header_Get (Header resp) ''Content-Type'') ''application/json'' then None
      else if ue \<noteq> None then None
      else if Code a = [] \<and> Message a = [] then None
      else Some (Error (Code a) (Message a)))"
  using assms by (auto simp add: errorFromResponse_def)

text \<open>
  C5. The claim: for a status code in 400..599, a Content-Type that does not start with
  \<^verbatim>\<open>application/json\<close> gives no structured error and \<open>Do\<close> returns the status code
  error; a JSON body whose \<^verbatim>\<open>error.code\<close> and \<^verbatim>\<open>error.message\<close> are both empty after
  parsing gives no structured error either; otherwise the classifier returns a typed
  \<open>Error\<close> with that code and message.

  As amended, with \<open>a\<close> the struct and \<open>ue\<close> the error \<^verbatim>\<open>json.Unmarshal\<close> gives for the body:
  the classifier returns no structured error when the Content-Type is not JSON, when
  \<^verbatim>\<open>json.Unmarshal\<close> returns an error, and when it returns none and both fields are
  empty; it returns \<open>Error (Code a) (Message a)\<close> when \<^verbatim>\<open>json.Unmarshal\<close> returns no error
  and a field is not empty. For such a status code, once the body is read and the meta
  data are read without error (which is always so when the Content-Type is not JSON),
  \<open>Do\<close> returns the classifier's error, or the status code error when there is none.
\<close>

theorem C5_error_classification:
  assumes "json_Unmarshal scan apiError_decoder body \<lparr>Code = [], Message = []\<rparr> = (a, ue)"
  shows "(\<not> HasPrefix (Header_Get (Header resp) ''Content-Type'') ''application/json'' \<longrightarrow>
        errorFromResponse scan resp body = None)
    \<and> (HasPrefix (Header_Get (Header resp) ''Content-Type'') ''application/json'' \<and> ue \<noteq> None \<longrightarrow>
        errorFromResponse scan resp body = None)
    \<and> (HasPrefix (Header_Get (Header resp) ''Content-Type'') ''application/json'' \<and> ue = None
          \<and> Code a = [] \<and> Message a = [] \<longrightarrow>
        errorFromResponse scan resp body = None)
    \<and> (HasPrefix (Header_Get (Header resp) ''Content-Type'') ''application/json'' \<and> ue = None
          \<and> \<not> (Code a = [] \<and> Message a = []) \<longrightarrow>
        errorFromResponse scan resp body = Some (Error (Code a) (Message a)))
    \<and> (httpClient c r = Inr resp \<and> ReadAll (Body resp) = ((body, None), rd)
          \<and> 400 \<le> sint (StatusCode resp) \<and> sint (StatusCode resp) \<le> 599
          \<and> \<not> HasPrefix (Header_Get (Header resp) ''Content-Type'') ''application/json'' \<longrightarrow>
        snd (Do scan c r v) = Some (StatusCodeError (StatusCode resp)))
    \<and> (httpClient c r = Inr resp \<and> ReadAll (Body resp) = ((body, None), rd)
          \<and> 400 \<le> sint (StatusCode resp) \<and> sint (StatusCode resp) \<le> 599
          \<and> HasPrefix (Header_Get (Header resp) ''Content-Type'') ''application/json''
          \<and> snd (json_Unmarshal scan meta_decoder body zero_Pagination) = None \<longrightarrow>
        snd (Do scan c r v) =
          Some (case errorFromResponse scan resp body of
                  None \<Rightarrow> StatusCodeError (StatusCode resp)
                | Some err \<Rightarrow> err))"
proof (intro conjI impI)
  let ?r0 = "(new_Response resp)\<lparr>Body := BytesReader body 0\<rparr>"
  {
    assume h: "httpClient c r = Inr resp \<and> ReadAll (Body resp) = ((body, None), rd)
          \<and> 400 \<le> sint (StatusCode resp) \<and> sint (StatusCode resp) \<le> 599
          \<and> \<not> HasPrefix (Header_Get (Header resp) ''Content-Type'') ''application/json''"
    then have n: "\<not> HasPrefix (Header_Get (Header ?r0) ''Content-Type'') ''application/json''"
      by (simp add: new_Response_http)
    have m: "snd (readMeta scan ?r0 body) = None"
      using n by (rule readMeta_not_json)
    have e: "errorFromResponse scan resp body = None"
      using h by (simp add: errorFromResponse_def)
    from h have d: "httpClient c r = Inr resp" "ReadAll (Body resp) = ((body, None), rd)"
      by simp_all
    show "snd (Do scan c r v) = Some (StatusCodeError (StatusCode resp))"
      using h by (simp add: Do_buffered [OF d] m e)
  }
  {
    assume h: "httpClient c r = Inr resp \<and> ReadAll (Body resp) = ((body, None), rd)
          \<and> 400 \<le> sint (StatusCode resp) \<and> sint (StatusCode resp) \<le> 599
          \<and> HasPrefix (Header_Get (Header resp) ''Content-Type'') ''application/json''
          \<and> snd (json_Unmarshal scan meta_decoder body zero_Pagination) = None"
    then have n: "HasPrefix (Header_Get (Header ?r0) ''Content-Type'') ''application/json''"
      by (simp add: new_Response_http)
    have m: "snd (readMeta scan ?r0 body) = None"
      using h by (simp add: readMeta_json(1) [OF n])
    from h have d: "httpClient c r = Inr resp" "ReadAll (Body resp) = ((body, None), rd)"
      by simp_all
    show "snd (Do scan c r v) =
          Some (case errorFromResponse scan resp body of
                  None \<Rightarrow> StatusCodeError (StatusCode resp)
                | Some err \<Rightarrow> err)"
      using h by (simp add: Do_buffered [OF d] m split: option.splits)
  }
qed (simp_all add: errorFromResponse_cases [OF assms])

lemma apiError_decoder_not_found:
  "apiError_decoder
     (JObject [(''error'', JObject [(''code'', JString ''not_found''), (''message'', JString ''x'')])])
     \<lparr>Code = [], Message = []\<rparr> = (\<lparr>Code = ''not_found'', Message = ''x''\<rparr>, True)"
  by (simp add: apiError_decoder_def decode_struct_def decode_member_def find_field_def
      decode_string_def equalFold_def)

lemma apiError_decoder_bad_message:
  "apiError_decoder
     (JObject [(''error'', JObject [(''code'', JString ''x''), (''message'', JNumber ''5'')])])
     \<lparr>Code = [], Message = []\<rparr> = (\<lparr>Code = ''x'', Message = []\<rparr>, False)"
  by (simp add: apiError_decoder_def decode_struct_def decode_member_def find_field_def
      decode_string_def equalFold_def)

lemma apiError_decoder_no_error:
  "apiError_decoder (JObject [(''servers'', JArray [])]) \<lparr>Code = [], Message = []\<rparr> =
     (\<lparr>Code = [], Message = []\<rparr>, True)"
  by (simp add: apiError_decoder_def decode_struct_def decode_member_def find_field_def
      equalFold_def)

lemma apiError_decoder_bad_meta:
  "apiError_decoder (JObject [(''meta'', JNumber ''5'')]) \<lparr>Code = [], Message = []\<rparr> =
     (\<lparr>Code = [], Message = []\<rparr>, True)"
  by (simp add: apiError_decoder_def decode_struct_def decode_member_def find_field_def
      equalFold_def)

lemma meta_decoder_bad_meta:
  "meta_decoder (JObject [(''meta'', JNumber ''5'')]) v = (v, False)"
  by (simp add: meta_decoder_def decode_struct_def decode_member_def find_field_def)

lemma json_Unmarshal_meta_samples:
  "snd (json_Unmarshal sample_scan meta_decoder body_not_found zero_Pagination) = None"
  "snd (json_Unmarshal sample_scan meta_decoder body_no_error zero_Pagination) = None"
  "snd (json_Unmarshal sample_scan meta_decoder body_bad_message zero_Pagination) = None"
  by (simp_all add: json_Unmarshal_def sample_scan_simps meta_decoder_no_pagination
      no_pagination_def selects_def equalFold_def)

lemma json_Unmarshal_apiError_samples:
  "json_Unmarshal sample_scan apiError_decoder body_not_found \<lparr>Code = [], Message = []\<rparr> =
     (\<lparr>Code = ''not_found'', Message = ''x''\<rparr>, None)"
  "json_Unmarshal sample_scan apiError_decoder body_no_error \<lparr>Code = [], Message = []\<rparr> =
     (\<lparr>Code = [], Message = []\<rparr>, None)"
  "json_Unmarshal sample_scan apiError_decoder body_bad_message \<lparr>Code = [], Message = []\<rparr> =
     (\<lparr>Code = ''x'', Message = []\<rparr>, Some (JSONError UnmarshalTypeError))"
  "json_Unmarshal sample_scan apiError_decoder body_html \<lparr>Code = [], Message = []\<rparr> =
     (\<lparr>Code = [], Message = []\<rparr>, Some (JSONError SyntaxError))"
  "json_Unmarshal sample_scan apiError_decoder body_bad_meta \<lparr>Code = [], Message = []\<rparr> =
     (\<lparr>Code = [], Message = []\<rparr>, None)"
  by (simp_all add: json_Unmarshal_def sample_scan_simps apiError_decoder_not_found
      apiError_decoder_bad_message apiError_decoder_no_error apiError_decoder_bad_meta)

lemma json_response_prefix:
  "HasPrefix (Header_Get (Header (json_response code body)) ''Content-Type'') ''application/json''"
  by (simp add: json_response_http HasPrefix_def)

lemma html_response_prefix:
  "\<not> HasPrefix (Header_Get (Header (html_response code body)) ''Content-Type'') ''application/json''"
  by (simp add: html_response_http HasPrefix_def)

text \<open>
  The original claim fails where \<^verbatim>\<open>json.Unmarshal\<close> returns an error: the body
  \<^verbatim>\<open>{"error":{"code":"x","message":5}}\<close> with a JSON Content-Type and status 422 leaves
  the code \<open>x\<close> in the struct, so the fields are not both empty after parsing, but the
  number for \<^verbatim>\<open>message\<close> is a type error, the classifier returns no structured error
  and \<open>Do\<close> returns the status code error. And where the meta data cannot be read, no
  status code error is made: for the body \<^verbatim>\<open>{"meta":5}\<close> with status 500 both fields are
  empty and the classifier would return no structured error, but \<open>Do\<close> returns the error
  of reading the meta data.
\<close>

theorem C5_counterexample:
  "HasPrefix (Header_Get (Header (json_response 422 body_bad_message)) ''Content-Type'')
     ''application/json''
   \<and> fst (json_Unmarshal sample_scan apiError_decoder body_bad_message \<lparr>Code = [], Message = []\<rparr>) =
       \<lparr>Code = ''x'', Message = []\<rparr>
   \<and> errorFromResponse sample_scan (json_response 422 body_bad_message) body_bad_message = None
   \<and> Do sample_scan (serving (json_response 422 body_bad_message)) sample_request NoTarget =
       (Some (fst (readMeta sample_scan
          ((new_Response (json_response 422 body_bad_message))\<lparr>Body := BytesReader body_bad_message 0\<rparr>)
          body_bad_message)),
        Some (StatusCodeError 422))
   \<and> errorFromResponse sample_scan (json_response 500 body_bad_meta) body_bad_meta = None
   \<and> snd (Do sample_scan (serving (json_response 500 body_bad_meta)) sample_request NoTarget) =
       Some (MetaDataError (JSONError UnmarshalTypeError))"
proof -
  let ?resp = "json_response 422 body_bad_message"
  let ?r0 = "(new_Response ?resp)\<lparr>Body := BytesReader body_bad_message 0\<rparr>"
  have e: "errorFromResponse sample_scan ?resp body_bad_message = None"
    by (simp add: errorFromResponse_cases [OF json_Unmarshal_apiError_samples(3)])
  have n: "HasPrefix (Header_Get (Header ?r0) ''Content-Type'') ''application/json''"
    by (simp add: new_Response_http json_response_prefix)
  have m: "snd (readMeta sample_scan ?r0 body_bad_message) = None"
    by (simp add: readMeta_json(1) [OF n] json_Unmarshal_meta_samples)
  have d: "Do sample_scan (serving ?resp) sample_request NoTarget =
      (Some (fst (readMeta sample_scan ?r0 body_bad_message)), Some (StatusCodeError 422))"
    by (simp add: Do_buffered [OF serving_httpClient json_response_http(3)] m e
        json_response_http)
  let ?resp' = "json_response 500 body_bad_meta"
  let ?r1 = "(new_Response ?resp')\<lparr>Body := BytesReader body_bad_meta 0\<rparr>"
  have e': "errorFromResponse sample_scan ?resp' body_bad_meta = None"
    by (simp add: errorFromResponse_cases [OF json_Unmarshal_apiError_samples(5)])
  have n': "HasPrefix (Header_Get (Header ?r1) ''Content-Type'') ''application/json''"
    by (simp add: new_Response_http json_response_prefix)
  have m': "snd (readMeta sample_scan ?r1 body_bad_meta) = Some (JSONError UnmarshalTypeError)"
    by (simp add: readMeta_json(1) [OF n'] json_Unmarshal_def sample_scan_simps
        meta_decoder_bad_meta)
  have d': "snd (Do sample_scan (serving ?resp') sample_request NoTarget) =
      Some (MetaDataError (JSONError UnmarshalTypeError))"
    by (simp add: Do_buffered [OF serving_httpClient json_response_http(3)] m')
  from json_response_prefix e d e' d' show ?thesis
    by (simp add: json_Unmarshal_apiError_samples)
qed

theorem C5_witness:
  "errorFromResponse sample_scan (json_response 404 body_not_found) body_not_found =
     Some (Error ''not_found'' ''x'')
   \<and> snd (Do sample_scan (serving (json_response 404 body_not_found)) sample_request NoTarget) =
     Some (Error ''not_found'' ''x'')
   \<and> errorFromResponse sample_scan (html_response 404 body_html) body_html = None
   \<and> snd (Do sample_scan (serving (html_response 404 body_html)) sample_request NoTarget) =
     Some (StatusCodeError 404)
   \<and> errorFromResponse sample_scan (json_response 500 body_no_error) body_no_error = None
   \<and> snd (Do sample_scan (serving (json_response 500 body_no_error)) sample_request NoTarget) =
     Some (StatusCodeError 500)
   \<and> errorFromResponse sample_scan (json_response 422 body_bad_message) body_bad_message = None"
proof -
  note a = C5_error_classification
    [OF json_Unmarshal_apiError_samples(1), where resp = "json_response 404 body_not_found"
      and c = "serving (json_response 404 body_not_found)" and r = sample_request
      and rd = "Stream [] None" and v = NoTarget]
  have a1: "errorFromResponse sample_scan (json_response 404 body_not_found) body_not_found =
      Some (Error ''not_found'' ''x'')"
    using a json_response_prefix by simp
  have a2: "snd (Do sample_scan (serving (json_response 404 body_not_found)) sample_request
      NoTarget) = Some (Error ''not_found'' ''x'')"
    using a json_response_prefix serving_httpClient json_Unmarshal_meta_samples(1)
    by (simp add: json_response_http a1)
  note b = C5_error_classification
    [OF json_Unmarshal_apiError_samples(4), where resp = "html_response 404 body_html"
      and c = "serving (html_response 404 body_html)" and r = sample_request
      and rd = "Stream [] None" and v = NoTarget]
  have b1: "errorFromResponse sample_scan (html_response 404 body_html) body_html = None"
    using b html_response_prefix by simp
  have b2: "snd (Do sample_scan (serving (html_response 404 body_html)) sample_request NoTarget) =
      Some (StatusCodeError 404)"
    using b html_response_prefix serving_httpClient
    by (simp add: html_response_http)
  note c = C5_error_classification
    [OF json_Unmarshal_apiError_samples(2), where resp = "json_response 500 body_no_error"
      and c = "serving (json_response 500 body_no_error)" and r = sample_request
      and rd = "Stream [] None" and v = NoTarget]
  have c1: "errorFromResponse sample_scan (json_response 500 body_no_error) body_no_error = None"
    using c json_response_prefix by simp
  have c2: "snd (Do sample_scan (serving (json_response 500 body_no_error)) sample_request
      NoTarget) = Some (StatusCodeError 500)"
    using c json_response_prefix serving_httpClient json_Unmarshal_meta_samples(2)
    by (simp add: json_response_http c1)
  have d1: "errorFromResponse sample_scan (json_response 422 body_bad_message) body_bad_message =
      None"
    using C5_error_classification
      [OF json_Unmarshal_apiError_samples(3), where resp = "json_response 422 body_bad_message"]
      json_response_prefix by simp
  from a1 a2 b1 b2 c1 c2 d1 show ?thesis
    by (intro conjI)
qed

subsection \<open>Endpoint and request URL\<close>

lemma takeWhile_slash: "takeWhile (\<lambda>c. c \<in> set ''/'') xs = replicate (length (takeWhile (\<lambda>c. c \<in> set ''/'') xs)) CHR ''/''"
  by (induction xs) simp_all

lemma TrimRight_decomp: "\<exists>k. e = TrimRight e ''/'' @ replicate k CHR ''/''"
proof -
  let ?P = "\<lambda>c. c \<in> set ''/''"
  have "rev e = takeWhile ?P (rev e) @ dropWhile ?P (rev e)"
    by simp
  then have "e = rev (dropWhile ?P (rev e)) @ rev (takeWhile ?P (rev e))"
    by (metis rev_append rev_rev_ident)
  moreover have "rev (takeWhile ?P (rev e)) = replicate (length (takeWhile ?P (rev e))) CHR ''/''"
    using takeWhile_slash [of "rev e"] by (metis rev_replicate)
  ultimately have "e = TrimRight e ''/'' @ replicate (length (takeWhile ?P (rev e))) CHR ''/''"
    by (simp add: TrimRight_def)
  then show ?thesis ..
qed

lemma TrimRight_no_trailing_slash:
  "TrimRight e ''/'' = [] \<or> last (TrimRight e ''/'') \<noteq> CHR ''/''"
proof (cases "dropWhile (\<lambda>c. c \<in> set ''/'') (rev e)")
  case Nil
  then show ?thesis by (simp add: TrimRight_def)
next
  case (Cons x xs)
  then have "x \<notin> set ''/''"
    using hd_dropWhile [of "\<lambda>c. c \<in> set ''/''" "rev e"] by simp
  with Cons show ?thesis
    by (simp add: TrimRight_def)
qed

lemma TrimRight_append_slashes:
  "TrimRight (e @ replicate k CHR ''/'') ''/'' = TrimRight e ''/''"
proof -
  have "dropWhile (\<lambda>c. c \<in> set ''/'') (replicate k CHR ''/'' @ xs) =
      dropWhile (\<lambda>c. c \<in> set ''/'') xs" for xs
    by (induction k) simp_all
  then show ?thesis
    by (simp add: TrimRight_def)
qed

lemma NewRequest_URL:
  "NewRequest check c method path b = Inr req \<Longrightarrow> URL req = endpoint c @ path"
  by (auto simp add: NewRequest_def Let_def split: option.splits)

text \<open>
  C10. \<open>WithEndpoint e\<close> stores \<open>e\<close> without its trailing \<^verbatim>\<open>/\<close> characters: what is stored
  is \<open>e\<close> up to a run of \<^verbatim>\<open>/\<close> at the end and does not itself end in \<^verbatim>\<open>/\<close>; so does
  \<open>NewClient\<close> with that option. The URL of every request \<open>NewRequest\<close> builds is the
  stored endpoint followed by the path. Hence endpoints that differ in trailing \<^verbatim>\<open>/\<close>
  only, such as \<^verbatim>\<open>https://host/v1\<close> and \<^verbatim>\<open>https://host/v1/\<close>, give the same result of
  \<open>NewRequest\<close> for every method, path and body.
\<close>

theorem C10_endpoint_trailing_slashes:
  "endpoint (WithEndpoint e c) = TrimRight e ''/''
   \<and> endpoint (NewClient impl transport [WithEndpoint e]) = TrimRight e ''/''
   \<and> (\<exists>k. e = TrimRight e ''/'' @ replicate k CHR ''/'')
   \<and> (TrimRight e ''/'' = [] \<or> last (TrimRight e ''/'') \<noteq> CHR ''/'')
   \<and> (NewRequest check c m path b = Inr req \<longrightarrow> URL req = endpoint c @ path)
   \<and> (NewRequest check (WithEndpoint e c) m path b = Inr req \<longrightarrow>
        URL req = TrimRight e ''/'' @ path)
   \<and> NewRequest check (WithEndpoint (e @ replicate k CHR ''/'') c) m path b =
        NewRequest check (WithEndpoint e c) m path b
   \<and> NewRequest check (WithEndpoint ''https://host/v1/'' c) m path b =
        NewRequest check (WithEndpoint ''https://host/v1'' c) m path b"
proof (intro conjI impI)
  show "endpoint (WithEndpoint e c) = TrimRight e ''/''"
    by (simp add: WithEndpoint_def)
  show "endpoint (NewClient impl transport [WithEndpoint e]) = TrimRight e ''/''"
    by (simp add: NewClient_def WithEndpoint_def)
  show "\<exists>k. e = TrimRight e ''/'' @ replicate k CHR ''/''"
    by (rule TrimRight_decomp)
  show "TrimRight e ''/'' = [] \<or> last (TrimRight e ''/'') \<noteq> CHR ''/''"
    by (rule TrimRight_no_trailing_slash)
  show "URL req = endpoint c @ path" if "NewRequest check c m path b = Inr req"
    using that by (rule NewRequest_URL)
  show "URL req = TrimRight e ''/'' @ path"
    if "NewRequest check (WithEndpoint e c) m path b = Inr req"
    using NewRequest_URL [OF that] by (simp add: WithEndpoint_def)
  show "NewRequest check (WithEndpoint (e @ replicate k CHR ''/'') c) m path b =
        NewRequest check (WithEndpoint e c) m path b"
    by (simp add: WithEndpoint_def TrimRight_append_slashes)
  show "NewRequest check (WithEndpoint ''https://host/v1/'' c) m path b =
        NewRequest check (WithEndpoint ''https://host/v1'' c) m path b"
    by (simp add: WithEndpoint_def TrimRight_def)
qed

theorem C10_witness:
  "NewRequest (\<lambda>verb url. None) (WithEndpoint ''https://host/v1///'' sample_client)
      ''GET'' ''/servers'' None = Inr sample_request
   \<and> URL sample_request = ''https://host/v1/servers''
   \<and> TrimRight ''https://host/v1///'' ''/'' = ''https://host/v1''"
proof -
  have t: "TrimRight ''https://host/v1///'' ''/'' = ''https://host/v1''"
    by (simp add: TrimRight_def)
  have n: "NewRequest (\<lambda>verb url. None) (WithEndpoint ''https://host/v1///'' sample_client)
      ''GET'' ''/servers'' None = Inr sample_request"
    by (simp add: NewRequest_def WithEndpoint_def t sample_client_def sample_request_def)
  have "URL sample_request = TrimRight ''https://host/v1///'' ''/'' @ ''/servers''"
    using C10_endpoint_trailing_slashes
      [where check = "\<lambda>verb url. None" and e = "''https://host/v1///''" and c = sample_client
        and m = "''GET''" and path = "''/servers''" and b = None and req = sample_request]
      n by blast
  with n t show ?thesis by simp
qed

subsection \<open>Errors dropped outside the driver\<close>

lemma ratelimit_response_http:
  "StatusCode (ratelimit_response l m t) = 200"
  "Header_Get (Header (ratelimit_response l m t)) ''Content-Type'' = []"
  "ReadAll (Body (ratelimit_response l m t)) = (([], None), Stream [] None)"
  by (simp_all add: ratelimit_response_def Header_Get_def)

text \<open>
  The original last clause of C4 fails outside the driver. \<open>errorFromResponse\<close> drops the
  error of \<^verbatim>\<open>json.Unmarshal\<close>: for the body \<^verbatim>\<open>{"error":{"code":"x","message":5}}\<close> with
  status 422 the unmarshalling fails with a type error, the classifier returns nil and
  \<open>Do\<close> returns the status code error in its place. \<open>readMeta\<close> drops the errors of
  \<^verbatim>\<open>strconv.Atoi\<close> and \<^verbatim>\<open>strconv.ParseInt\<close>: for rate-limit headers with the value
  \<^verbatim>\<open>many\<close> both fail, and \<open>readMeta\<close> and \<open>Do\<close> return no error.
\<close>

theorem C4_counterexample:
  "snd (json_Unmarshal sample_scan apiError_decoder body_bad_message \<lparr>Code = [], Message = []\<rparr>) =
     Some (JSONError UnmarshalTypeError)
   \<and> errorFromResponse sample_scan (json_response 422 body_bad_message) body_bad_message = None
   \<and> snd (Do sample_scan (serving (json_response 422 body_bad_message)) sample_request NoTarget) =
       Some (StatusCodeError 422)
   \<and> snd (Atoi ''many'') = Some ErrSyntax
   \<and> snd (ParseInt ''many'') = Some ErrSyntax
   \<and> snd (readMeta sample_scan (new_Response (ratelimit_response ''many'' ''many'' ''many'')) []) =
       None
   \<and> snd (Do sample_scan (serving (ratelimit_response ''many'' ''many'' ''many'')) sample_request
        NoTarget) = None"
proof -
  let ?resp = "json_response 422 body_bad_message"
  let ?r0 = "(new_Response ?resp)\<lparr>Body := BytesReader body_bad_message 0\<rparr>"
  have u: "snd (json_Unmarshal sample_scan apiError_decoder body_bad_message
      \<lparr>Code = [], Message = []\<rparr>) = Some (JSONError UnmarshalTypeError)"
    by (simp add: json_Unmarshal_apiError_samples)
  have e: "errorFromResponse sample_scan ?resp body_bad_message = None"
    by (simp add: errorFromResponse_cases [OF json_Unmarshal_apiError_samples(3)])
  have n: "HasPrefix (Header_Get (Header ?r0) ''Content-Type'') ''application/json''"
    by (simp add: new_Response_http json_response_prefix)
  have m: "snd (readMeta sample_scan ?r0 body_bad_message) = None"
    by (simp add: readMeta_json(1) [OF n] json_Unmarshal_meta_samples)
  have d: "snd (Do sample_scan (serving ?resp) sample_request NoTarget) =
      Some (StatusCodeError 422)"
    by (simp add: Do_buffered [OF serving_httpClient json_response_http(3)] m e
        json_response_http)
  have p: "ParseInt ''many'' = (0, Some ErrSyntax)"
    by (simp add: ParseInt_def ParseUint_def is_digit_def)
  let ?rl = "ratelimit_response ''many'' ''many'' ''many''"
  have h: "\<not> HasPrefix (Header_Get (Header (new_Response ?rl)) ''Content-Type'')
      ''application/json''"
    by (simp add: new_Response_http ratelimit_response_http HasPrefix_def)
  have rm: "snd (readMeta sample_scan (new_Response ?rl) []) = None"
    using h by (rule readMeta_not_json)
  have h': "\<not> HasPrefix (Header_Get (Header ((new_Response ?rl)\<lparr>Body := BytesReader [] 0\<rparr>))
      ''Content-Type'') ''application/json''"
    by (simp add: new_Response_http ratelimit_response_http HasPrefix_def)
  have rm': "snd (readMeta sample_scan ((new_Response ?rl)\<lparr>Body := BytesReader [] 0\<rparr>) []) = None"
    using h' by (rule readMeta_not_json)
  have d2: "snd (Do sample_scan (serving ?rl) sample_request NoTarget) = None"
    by (simp add: Do_buffered [OF serving_httpClient ratelimit_response_http(3)] rm'
        ratelimit_response_http)
  from u e d p rm d2 show ?thesis
    by (simp add: Atoi_def)
qed

end
